theory Spec2Isabelle
  imports Complex_Main "HOL-Library.Word"
begin

unbundle bit_operations_syntax

section \<open>Data model\<close>

text \<open>
  The realtime MIDI input path of RtMidi. The C++ types are rendered as follows:
  \<^item> \<open>unsigned char\<close> is \<open>8 word\<close>, \<open>unsigned int\<close> and \<open>DWORD\<close> are \<open>32 word\<close>,
    \<open>unsigned long long\<close> and \<open>jack_time_t\<close> are \<open>64 word\<close>; arithmetic on them wraps;
  \<^item> \<open>std::vector<unsigned char>\<close> is a list of bytes;
  \<^item> \<open>double\<close> is \<open>real\<close>: the conversion of an unsigned integer to \<open>double\<close> and the
    multiplication by the tick constant are taken exactly, rounding is not modelled;
  \<^item> what a handler does to the outside world (the user callback it invokes, the lines
    it writes to \<open>std::cerr\<close>, the call of \<open>MidiApi::error\<close>) is returned as a list of
    effects, in program order.
\<close>

type_synonym byte = "8 word"

record MidiMessage =
  bytes :: "byte list"
  timeStamp :: real

text \<open>
  \<open>MidiQueue\<close>: the field \<open>size\<close> of the source is \<open>size_q\<close> here. The array \<open>ring\<close> is a
  list; a store \<open>ring[i] = m\<close> is \<open>(ring q)[i := m]\<close> and a load is \<open>ring q ! i\<close>. The
  source indexes the array only with \<open>front\<close> and \<open>back\<close> (here \<open>back_q\<close>), which the invariant
  \<open>queue_wf\<close> below keeps inside the array.
\<close>

record MidiQueue =
  front :: "32 word"
  back_q :: "32 word"
  size_q :: "32 word"
  ringSize :: "32 word"
  ring :: "MidiMessage list"

text \<open>
  \<open>RtMidiInData\<close>, with the fields the input handlers read or write. The user
  callback pointer and its user data are not kept: a call of the user callback is an
  effect.
\<close>

record RtMidiInData =
  queue :: MidiQueue
  ignoreFlags :: byte
  doInput :: bool
  firstMessage :: bool
  usingCallback :: bool
  continueSysex :: bool

datatype RtMidiError_Type =
  WARNING | DEBUG_WARNING | UNSPECIFIED | NO_DEVICES_FOUND | INVALID_DEVICE
  | MEMORY_ERROR | INVALID_PARAMETER | INVALID_USE | DRIVER_ERROR | SYSTEM_ERROR
  | THREAD_ERROR

datatype RtMidiError = RtMidiError string RtMidiError_Type

text \<open>
  Effects: a call of the user's input callback with the delta time and the bytes, a
  line on \<open>std::cerr\<close>, a call of \<open>MidiApi::error\<close>, and a call of the user's error
  callback (the function pointer is a number, 0 the null pointer).
\<close>

datatype effect =
  UserCallback real "byte list"
  | Cerr string
  | ErrorCall RtMidiError_Type string
  | ErrorCallbackCall nat RtMidiError_Type string

section \<open>The input queue\<close>

text \<open>
  The push block that closes each of the three input handlers
  (\<open>midiInputCallback\<close>, \<open>alsaMidiHandler\<close>, \<open>jackProcessIn\<close>); the handlers differ only
  in the name \<open>who\<close> printed in front of the diagnostic.
\<close>

definition queue_push :: "string \<Rightarrow> MidiMessage \<Rightarrow> MidiQueue \<Rightarrow> effect list \<times> MidiQueue" where
  "queue_push who m q =
     (if size_q q < ringSize q then
        (let q1 = q\<lparr>ring := (ring q)[unat (back_q q) := m], back_q := back_q q + 1\<rparr>;
             q2 = (if back_q q1 = ringSize q1 then q1\<lparr>back_q := 0\<rparr> else q1)
         in ([], q2\<lparr>size_q := size_q q2 + 1\<rparr>))
      else ([Cerr (who @ '': message queue limit reached!!'')], q))"

text \<open>
  The sink of a completed message: the user callback when one is set, the queue
  otherwise.
\<close>

definition deliver :: "string \<Rightarrow> MidiMessage \<Rightarrow> RtMidiInData \<Rightarrow> effect list \<times> RtMidiInData" where
  "deliver who m d =
     (if usingCallback d then ([UserCallback (timeStamp m) (bytes m)], d)
      else (case queue_push who m (queue d) of (es, q) \<Rightarrow> (es, d\<lparr>queue := q\<rparr>)))"

text \<open>
  \<open>MidiInApi::getMessage\<close>: the result is the returned delta time, the contents of the
  vector \<open>*message\<close> on return, the effects and the new input data.
\<close>

definition getMessage :: "RtMidiInData \<Rightarrow> (real \<times> byte list) \<times> effect list \<times> RtMidiInData" where
  "getMessage d =
     (if usingCallback d then
        ((0, []),
         [ErrorCall WARNING
            ''RtMidiIn::getNextMessage: a user callback is currently set for this port.''],
         d)
      else if size_q (queue d) = 0 then ((0, []), [], d)
      else
        (let q = queue d;
             m = ring q ! unat (front q);
             q1 = q\<lparr>size_q := size_q q - 1, front := front q + 1\<rparr>;
             q2 = (if front q1 = ringSize q1 then q1\<lparr>front := 0\<rparr> else q1)
         in ((timeStamp m, bytes m), [], d\<lparr>queue := q2\<rparr>)))"

text \<open>
  Modelled from the spec: the member initialisers of \<open>MidiMessage\<close>, \<open>MidiQueue\<close> and
  \<open>RtMidiInData\<close> are in the header RtMidi.h, which is not among the sources. The
  constructor \<open>MidiInApi::MidiInApi\<close> sets \<open>ringSize\<close> and allocates \<open>ringSize\<close>
  default-constructed slots; following the spec the queue starts empty (\<open>front\<close>,
  \<open>back\<close> and \<open>size\<close> at 0), no callback is bound, \<open>firstMessage\<close> is true, no
  sysex is pending, the input thread is not running, and a default message has no
  bytes and time stamp 0.0. \<open>flags\<close> is the initial value of
  \<open>ignoreFlags\<close>.
\<close>

definition MidiInApi_new :: "byte \<Rightarrow> 32 word \<Rightarrow> RtMidiInData" where
  "MidiInApi_new flags queueSizeLimit =
     \<lparr>queue = \<lparr>front = 0, back_q = 0, size_q = 0, ringSize = queueSizeLimit,
                ring = replicate (unat queueSizeLimit) \<lparr>bytes = [], timeStamp = 0\<rparr>\<rparr>,
      ignoreFlags = flags, doInput = False, firstMessage = True, usingCallback = False,
      continueSysex = False\<rparr>"

text \<open>Pushing a sequence of messages, and polling \<open>n\<close> times.\<close>

fun push_all :: "string \<Rightarrow> MidiMessage list \<Rightarrow> RtMidiInData \<Rightarrow> RtMidiInData" where
  "push_all who [] d = d"
| "push_all who (m # ms) d = push_all who ms (snd (deliver who m d))"

fun poll_n :: "nat \<Rightarrow> RtMidiInData \<Rightarrow> (real \<times> byte list) list \<times> RtMidiInData" where
  "poll_n 0 d = ([], d)"
| "poll_n (Suc n) d =
     (case getMessage d of (r, es, d1) \<Rightarrow>
        (case poll_n n d1 of (rs, d2) \<Rightarrow> (r # rs, d2)))"

text \<open>
  The invariant of the spec (size at most the capacity, \<open>front\<close> and \<open>back\<close> inside
  the array), and the stronger one that ties \<open>back\<close> to \<open>front\<close> and \<open>size\<close> and the
  list to the capacity.
\<close>

definition queue_inv :: "MidiQueue \<Rightarrow> bool" where
  "queue_inv q \<longleftrightarrow> size_q q \<le> ringSize q \<and> front q < ringSize q \<and> back_q q < ringSize q"

definition queue_wf :: "MidiQueue \<Rightarrow> bool" where
  "queue_wf q \<longleftrightarrow>
     length (ring q) = unat (ringSize q) \<and>
     unat (size_q q) \<le> unat (ringSize q) \<and>
     unat (front q) < unat (ringSize q) \<and>
     unat (back_q q) = (unat (front q) + unat (size_q q)) mod unat (ringSize q)"

text \<open>The queued messages, oldest first.\<close>

definition contents :: "MidiQueue \<Rightarrow> MidiMessage list" where
  "contents q =
     map (\<lambda>i. ring q ! ((unat (front q) + i) mod unat (ringSize q))) [0 ..< unat (size_q q)]"

section \<open>The Windows MM input callback\<close>

text \<open>
  The arguments \<open>inputStatus\<close> and \<open>midiMessage\<close> of \<open>midiInputCallback\<close> as one tagged
  value: with \<open>MIM_DATA\<close> the \<open>DWORD_PTR\<close> packs the short message (status byte lowest),
  with \<open>MIM_LONGDATA\<close> and \<open>MIM_LONGERROR\<close> it points to the sysex header; every other
  status is \<open>MIM_OTHER\<close>. Of the header only the recorded bytes matter: \<open>lpData\<close> is the
  buffer (a \<open>char\<close> stored into the byte vector is the same byte) and \<open>dwBytesRecorded\<close>
  their count. The header \<open>sysexBuffer[sysex->dwUser]\<close> that the callback tests before
  requeueing is the header it was called with.
\<close>

record MIDIHDR =
  lpData :: "byte list"
  dwBytesRecorded :: "32 word"

datatype WinEvent =
  MIM_DATA "32 word"
  | MIM_LONGDATA MIDIHDR
  | MIM_LONGERROR MIDIHDR
  | MIM_OTHER

record WinMidiData =
  lastTime :: "32 word"
  message :: MidiMessage

text \<open>
  The time stamp block at the head of the callback. \<open>timestamp - lastTime\<close> is a
  \<open>DWORD\<close> subtraction, so it wraps; the difference is then converted to \<open>double\<close>
  and scaled by 0.001.
\<close>

definition calculate_time_stamp ::
  "32 word \<Rightarrow> RtMidiInData \<times> WinMidiData \<Rightarrow> RtMidiInData \<times> WinMidiData" where
  "calculate_time_stamp timestamp s =
     (case s of (d, a) \<Rightarrow>
        (if firstMessage d then
           (d\<lparr>firstMessage := False\<rparr>,
            a\<lparr>message := (message a)\<lparr>timeStamp := 0\<rparr>, lastTime := timestamp\<rparr>)
         else
           (d, a\<lparr>message := (message a)\<lparr>timeStamp := real (unat (timestamp - lastTime a)) * 0.001\<rparr>,
                 lastTime := timestamp\<rparr>)))"

text \<open>
  The number of bytes of a short message from its status byte; \<open>None\<close> where the
  callback returns because the message class is ignored.
\<close>

definition nBytes_of :: "byte \<Rightarrow> byte \<Rightarrow> nat option" where
  "nBytes_of status flags =
     (if status < 0xC0 then Some 3
      else if status < 0xE0 then Some 2
      else if status < 0xF0 then Some 3
      else if status = 0xF1 then (if flags AND 0x02 \<noteq> 0 then None else Some 2)
      else if status = 0xF2 then Some 3
      else if status = 0xF3 then Some 2
      else if status = 0xF8 \<and> flags AND 0x02 \<noteq> 0 then None
      else if status = 0xFE \<and> flags AND 0x04 \<noteq> 0 then None
      else Some 1)"

text \<open>The first \<open>n\<close> bytes of the packed message, lowest byte first.\<close>

definition packed_bytes :: "nat \<Rightarrow> 32 word \<Rightarrow> byte list" where
  "packed_bytes n w = map (\<lambda>i. ucast (drop_bit (8 * i) w)) [0 ..< n]"

definition append_bytes :: "byte list \<Rightarrow> WinMidiData \<Rightarrow> WinMidiData" where
  "append_bytes bs a = a\<lparr>message := (message a)\<lparr>bytes := bytes (message a) @ bs\<rparr>\<rparr>"

text \<open>
  The callback up to the point where it hands \<open>apiData->message\<close> to the sink. The
  boolean of the result tells whether that point is reached; it is false on each
  \<open>return\<close> before it. \<open>requeued\<close> tells whether \<open>midiInAddBuffer\<close> succeeded.
  The sysex loop runs for \<open>i < (int) dwBytesRecorded\<close>.
\<close>

definition midiInputCallback_assemble ::
  "WinEvent \<Rightarrow> bool \<Rightarrow> 32 word \<Rightarrow> RtMidiInData \<times> WinMidiData
     \<Rightarrow> effect list \<times> bool \<times> RtMidiInData \<times> WinMidiData" where
  "midiInputCallback_assemble ev requeued timestamp s =
     (case ev of
        MIM_OTHER \<Rightarrow> ([], False, s)
      | MIM_DATA midiMessage \<Rightarrow>
          (case calculate_time_stamp timestamp s of (d, a) \<Rightarrow>
             (let status = (ucast (midiMessage AND 0x000000FF) :: byte) in
              if status AND 0x80 = 0 then ([], False, d, a)
              else (case nBytes_of status (ignoreFlags d) of
                      None \<Rightarrow> ([], False, d, a)
                    | Some nBytes \<Rightarrow>
                        ([], True, d, append_bytes (packed_bytes nBytes midiMessage) a))))
      | MIM_LONGDATA sysex \<Rightarrow>
          (case calculate_time_stamp timestamp s of (d, a) \<Rightarrow>
             (let a1 = (if ignoreFlags d AND 0x01 = 0
                        then append_bytes (take (nat (sint (dwBytesRecorded sysex))) (lpData sysex)) a
                        else a)
              in if dwBytesRecorded sysex > 0 then
                   (let es = (if requeued then []
                              else [Cerr ''RtMidiIn::midiInputCallback: error sending sysex to Midi device!!''])
                    in if ignoreFlags d AND 0x01 \<noteq> 0 then (es, False, d, a1)
                       else (es, True, d, a1))
                 else ([], False, d, a1)))
      | MIM_LONGERROR sysex \<Rightarrow>
          (case calculate_time_stamp timestamp s of (d, a) \<Rightarrow>
             (if dwBytesRecorded sysex > 0 then
                (let es = (if requeued then []
                           else [Cerr ''RtMidiIn::midiInputCallback: error sending sysex to Midi device!!''])
                 in if ignoreFlags d AND 0x01 \<noteq> 0 then (es, False, d, a)
                    else (es, True, d, a))
              else ([], False, d, a))))"

text \<open>The whole callback: assemble, hand the message to the sink, clear the vector.\<close>

definition midiInputCallback ::
  "WinEvent \<Rightarrow> bool \<Rightarrow> 32 word \<Rightarrow> RtMidiInData \<times> WinMidiData
     \<Rightarrow> effect list \<times> RtMidiInData \<times> WinMidiData" where
  "midiInputCallback ev requeued timestamp s =
     (case midiInputCallback_assemble ev requeued timestamp s of
        (es, False, d, a) \<Rightarrow> (es, d, a)
      | (es, True, d, a) \<Rightarrow>
          (case deliver ''RtMidiIn'' (message a) d of
             (es2, d2) \<Rightarrow> (es @ es2, d2, a\<lparr>message := (message a)\<lparr>bytes := []\<rparr>\<rparr>)))"

section \<open>The ALSA input thread\<close>

text \<open>
  One sequencer event as the handler sees it: its type (the types the \<open>switch\<close> names,
  and \<open>SND_SEQ_EVENT_OTHER\<close> for the \<open>default\<close> branch), the two \<open>unsigned int\<close>
  fields of its real-time stamp \<open>ev->time.time\<close>, the bytes \<open>snd_midi_event_decode\<close>
  writes to the buffer (none when it returns 0 or an error: the handler only tests
  \<open>nBytes > 0\<close>), and whether the sysex buffer had to grow and \<open>malloc\<close> failed.
\<close>

datatype snd_seq_event_type =
  SND_SEQ_EVENT_PORT_SUBSCRIBED
  | SND_SEQ_EVENT_PORT_UNSUBSCRIBED
  | SND_SEQ_EVENT_QFRAME
  | SND_SEQ_EVENT_TICK
  | SND_SEQ_EVENT_CLOCK
  | SND_SEQ_EVENT_SENSING
  | SND_SEQ_EVENT_SYSEX
  | SND_SEQ_EVENT_OTHER

record snd_seq_event =
  ev_type :: snd_seq_event_type
  tv_sec :: "32 word"
  tv_nsec :: "32 word"
  ev_decoded :: "byte list"
  ev_resize_fails :: bool

text \<open>
  The microsecond time of an event as the handler computes it:
  \<open>time = ( ev->time.time.tv_sec * 1000000 ) + ( ev->time.time.tv_nsec/1000 )\<close>. Both
  operands are \<open>unsigned int\<close>, so the product and the sum are taken modulo \<open>2^32\<close>
  and only the result is widened to the \<open>unsigned long long\<close> \<open>time\<close>.
\<close>

definition ev_time :: "snd_seq_event \<Rightarrow> 64 word" where
  "ev_time ev = ucast (tv_sec ev * 1000000 + tv_nsec ev div 1000)"

record AlsaMidiData =
  lastTime_alsa :: "64 word"

text \<open>The handler's locals that live across iterations of its loop.\<close>

record AlsaLocals =
  continueSysex_l :: bool
  message_l :: MidiMessage

type_synonym alsa_state = "RtMidiInData \<times> AlsaMidiData \<times> AlsaLocals"

text \<open>The \<open>switch\<close> on the event type: the value of \<open>doDecode\<close> and the input data.\<close>

definition doDecode_of :: "snd_seq_event \<Rightarrow> RtMidiInData \<Rightarrow> bool \<times> RtMidiInData" where
  "doDecode_of ev d =
     (case ev_type ev of
        SND_SEQ_EVENT_PORT_SUBSCRIBED \<Rightarrow> (False, d)
      | SND_SEQ_EVENT_PORT_UNSUBSCRIBED \<Rightarrow> (False, d)
      | SND_SEQ_EVENT_QFRAME \<Rightarrow> (ignoreFlags d AND 0x02 = 0, d)
      | SND_SEQ_EVENT_TICK \<Rightarrow> (ignoreFlags d AND 0x02 = 0, d)
      | SND_SEQ_EVENT_CLOCK \<Rightarrow> (ignoreFlags d AND 0x02 = 0, d)
      | SND_SEQ_EVENT_SENSING \<Rightarrow> (ignoreFlags d AND 0x04 = 0, d)
      | SND_SEQ_EVENT_SYSEX \<Rightarrow>
          (if ignoreFlags d AND 0x01 \<noteq> 0 then (False, d)
           else if ev_resize_fails ev then (False, d\<lparr>doInput := False\<rparr>)
           else (True, d))
      | SND_SEQ_EVENT_OTHER \<Rightarrow> (True, d))"

text \<open>
  The body of the handler's loop for one event, up to the test
  \<open>message.bytes.size() == 0 || continueSysex\<close>; the boolean of the result is
  the negation of that test. The subtraction \<open>time -= apiData->lastTime\<close> is on
  \<open>unsigned long long\<close>, so it wraps.
\<close>

definition alsaMidiHandler_decode :: "snd_seq_event \<Rightarrow> alsa_state \<Rightarrow> bool \<times> alsa_state" where
  "alsaMidiHandler_decode ev s =
     (case s of (d, a, l) \<Rightarrow>
        (let l1 = (if \<not> continueSysex_l l then l\<lparr>message_l := (message_l l)\<lparr>bytes := []\<rparr>\<rparr> else l)
         in case doDecode_of ev d of (doDecode, d1) \<Rightarrow>
           (case
              (if doDecode \<and> ev_decoded ev \<noteq> [] then
                 (let bs = (if \<not> continueSysex_l l1 then ev_decoded ev
                            else bytes (message_l l1) @ ev_decoded ev);
                      cont = (ev_type ev = SND_SEQ_EVENT_SYSEX \<and> last bs \<noteq> 0xF7)
                  in if \<not> cont then
                       (d1\<lparr>firstMessage := False\<rparr>,
                        a\<lparr>lastTime_alsa := ev_time ev\<rparr>,
                        \<lparr>continueSysex_l = False,
                         message_l = \<lparr>bytes = bs,
                           timeStamp = (if firstMessage d1 then 0
                                        else real (unat (ev_time ev - lastTime_alsa a)) * 0.000001)\<rparr>\<rparr>)
                     else (d1, a, \<lparr>continueSysex_l = True, message_l = (message_l l1)\<lparr>bytes := bs\<rparr>\<rparr>))
               else (d1, a, l1))
            of (d2, a2, l2) \<Rightarrow>
              (\<not> (bytes (message_l l2) = [] \<or> continueSysex_l l2), d2, a2, l2))))"

definition alsaMidiHandler_step :: "snd_seq_event \<Rightarrow> alsa_state \<Rightarrow> effect list \<times> alsa_state" where
  "alsaMidiHandler_step ev s =
     (case alsaMidiHandler_decode ev s of
        (False, s1) \<Rightarrow> ([], s1)
      | (True, d, a, l) \<Rightarrow>
          (case deliver ''MidiInAlsa'' (message_l l) d of (es, d1) \<Rightarrow> (es, d1, a, l)))"

text \<open>
  Feeding a sequence of events: for each event the message handed to the sink, if
  any.
\<close>

fun alsa_feed :: "snd_seq_event list \<Rightarrow> alsa_state \<Rightarrow> MidiMessage option list \<times> alsa_state" where
  "alsa_feed [] s = ([], s)"
| "alsa_feed (ev # evs) s =
     (case alsaMidiHandler_decode ev s of
        (ready, d, a, l) \<Rightarrow>
          (case alsa_feed evs (d, a, l) of
             (rs, s2) \<Rightarrow> ((if ready then Some (message_l l) else None) # rs, s2)))"

text \<open>The bytes of a sysex message under assembly, none when no sysex is pending.\<close>

definition pending :: "AlsaLocals \<Rightarrow> byte list" where
  "pending l = (if continueSysex_l l then bytes (message_l l) else [])"

text \<open>
  A sysex event carrying the chunk \<open>c\<close>, with the real-time stamp \<open>t\<close> (seconds and
  nanoseconds).
\<close>

definition sysex_event :: "32 word \<times> 32 word \<Rightarrow> byte list \<Rightarrow> snd_seq_event" where
  "sysex_event t c =
     \<lparr>ev_type = SND_SEQ_EVENT_SYSEX, tv_sec = fst t, tv_nsec = snd t, ev_decoded = c,
      ev_resize_fails = False\<rparr>"

section \<open>The JACK process callback\<close>

record JackMidiData =
  lastTime_jack :: "64 word"

text \<open>
  Modelled from the spec: the default constructor of \<open>MidiMessage\<close> is in the header
  RtMidi.h, which is not among the sources. \<open>jackProcessIn\<close> declares its local
  \<open>message\<close> with it and assigns the time stamp only when the message is not the
  first; following the spec (the delta time of the first message of a connection is
  0.0, a message starts without bytes) the constructed message has no bytes and
  time stamp 0.0.
\<close>

definition MidiMessage_new :: MidiMessage where
  "MidiMessage_new = \<lparr>bytes = [], timeStamp = 0\<rparr>"

text \<open>
  The body of the event loop of \<open>jackProcessIn\<close> for one event with the bytes
  \<open>buffer\<close> (\<open>event.buffer\<close> up to \<open>event.size\<close>), \<open>time\<close> being what
  \<open>jack_get_time\<close> returns. The subtraction is on \<open>jack_time_t\<close>, so it wraps.
\<close>

definition jackProcessIn_event ::
  "byte list \<Rightarrow> 64 word \<Rightarrow> RtMidiInData \<times> JackMidiData
     \<Rightarrow> effect list \<times> RtMidiInData \<times> JackMidiData" where
  "jackProcessIn_event buffer time s =
     (case s of (d, j) \<Rightarrow>
        (let m0 = MidiMessage_new\<lparr>bytes := buffer\<rparr>;
             d1 = (if firstMessage d then d\<lparr>firstMessage := False\<rparr> else d);
             m1 = (if firstMessage d then m0
                   else m0\<lparr>timeStamp := real (unat (time - lastTime_jack j)) * 0.000001\<rparr>);
             j1 = j\<lparr>lastTime_jack := time\<rparr>
         in if \<not> continueSysex d1 then
              (case deliver ''MidiInJack'' m1 d1 of (es, d2) \<Rightarrow> (es, d2, j1))
            else ([], d1, j1)))"

section \<open>Error reporting\<close>

text \<open>
  \<open>MidiApi\<close> with the members \<open>MidiApi::error\<close> uses. The error callback is user code
  that may report errors on the same object while it runs. A call of \<open>error\<close> is
  therefore given with the calls of \<open>error\<close> that the user callback makes, in order,
  if this call invokes it: \<open>Call type errorString nested\<close>. The members
  \<open>errorCallback_\<close> and \<open>firstErrorOccurred_\<close> lose their trailing underscore.
\<close>

record MidiApi =
  errorCallback :: nat
  firstErrorOccurred :: bool

datatype error_call = Call RtMidiError_Type string "error_call list"

text \<open>
  \<open>MidiApi::error\<close>. The result is the exception thrown, if any, the effects and the
  object afterwards. An exception thrown by a nested call leaves through the user
  callback, past the reset of \<open>firstErrorOccurred_\<close>. The debug output of
  \<open>DEBUG_WARNING\<close> is compiled in only with \<open>__RTMIDI_DEBUG__\<close>, which is taken as
  undefined.
\<close>

fun error :: "MidiApi \<Rightarrow> error_call \<Rightarrow> RtMidiError option \<times> effect list \<times> MidiApi"
  and error_nested :: "MidiApi \<Rightarrow> error_call list \<Rightarrow> RtMidiError option \<times> effect list \<times> MidiApi"
  where
  "error api (Call type errorString nested) =
     (if errorCallback api \<noteq> 0 then
        (if firstErrorOccurred api then (None, [], api)
         else
           (case error_nested (api\<lparr>firstErrorOccurred := True\<rparr>) nested of
              (None, es, api1) \<Rightarrow>
                (None, ErrorCallbackCall (errorCallback api) type errorString # es,
                 api1\<lparr>firstErrorOccurred := False\<rparr>)
            | (Some e, es, api1) \<Rightarrow>
                (Some e, ErrorCallbackCall (errorCallback api) type errorString # es, api1)))
      else if type = WARNING then (None, [Cerr errorString], api)
      else if type = DEBUG_WARNING then (None, [], api)
      else (Some (RtMidiError errorString type), [Cerr errorString], api))"
| "error_nested api [] = (None, [], api)"
| "error_nested api (c # cs) =
     (case error api c of
        (None, es, api1) \<Rightarrow>
          (case error_nested api1 cs of (r, es2, api2) \<Rightarrow> (r, es @ es2, api2))
      | (Some e, es, api1) \<Rightarrow> (Some e, es, api1))"

section \<open>Example states\<close>

text \<open>A queue of capacity 2 holding two messages, with \<open>front\<close> at the second slot.\<close>

definition full_queue_example :: RtMidiInData where
  "full_queue_example =
     \<lparr>queue = \<lparr>front = 1, back_q = 1, size_q = 2, ringSize = 2,
                ring = [\<lparr>bytes = [0xF8], timeStamp = 0\<rparr>, \<lparr>bytes = [0xFE], timeStamp = 1\<rparr>]\<rparr>,
      ignoreFlags = 0, doInput = True, firstMessage = False, usingCallback = False,
      continueSysex = False\<rparr>"

section \<open>Queue properties\<close>

subsection \<open>Arithmetic of the ring indices\<close>

lemma unat_inc_below: "(x::32 word) < y \<Longrightarrow> unat (x + 1) = Suc (unat x)"
  by unat_arith

lemma inc_eq_iff: "(x::32 word) < y \<Longrightarrow> (x + 1 = y) = (Suc (unat x) = unat y)"
  by unat_arith

lemma unat_dec: "(x::32 word) \<noteq> 0 \<Longrightarrow> unat (x - 1) = unat x - 1"
  by unat_arith

lemma mod_distinct:
  fixes f :: nat
  assumes "i < s" "s < C"
  shows "(f + i) mod C \<noteq> (f + s) mod C"
proof
  assume "(f + i) mod C = (f + s) mod C"
  then have "(f + s) mod C = (f + i) mod C" by simp
  moreover have "f + i \<le> f + s" using assms by simp
  ultimately have "C dvd (f + s) - (f + i)" by (simp add: mod_eq_dvd_iff_nat)
  then have "C dvd s - i" by simp
  moreover have "0 < s - i" "s - i < C" using assms by simp_all
  ultimately show False using nat_dvd_not_less by blast
qed

lemma mod_Suc_step:
  fixes f :: nat
  assumes "b = (f + s) mod C" "0 < C"
  shows "(if Suc b = C then 0 else Suc b) = (f + Suc s) mod C"
  using assms by (simp add: mod_Suc)

lemma mod_front_step:
  fixes f :: nat
  assumes "f < C"
  shows "((if Suc f = C then 0 else Suc f) + i) mod C = (f + Suc i) mod C"
proof -
  have "(if Suc f = C then 0 else Suc f) = Suc f mod C"
    using assms by auto
  then show ?thesis by (simp add: mod_add_left_eq)
qed

text \<open>The fields of the queue after an accepted push, read as naturals.\<close>

lemma push_fields:
  fixes who m q
  assumes wf: "queue_wf q" and room: "size_q q < ringSize q"
  defines "q' \<equiv> snd (queue_push who m q)"
  shows "fst (queue_push who m q) = []"
    and "ringSize q' = ringSize q"
    and "front q' = front q"
    and "unat (size_q q') = Suc (unat (size_q q))"
    and "unat (back_q q') = (unat (front q) + Suc (unat (size_q q))) mod unat (ringSize q)"
    and "ring q' = (ring q)[unat (back_q q) := m]"
proof -
  have pos: "0 < unat (ringSize q)" using wf by (simp add: queue_wf_def)
  have bk: "unat (back_q q) < unat (ringSize q)"
    using wf pos by (simp add: queue_wf_def)
  then have bkw: "back_q q < ringSize q" by (simp add: word_less_nat_alt)
  show "fst (queue_push who m q) = []" using room by (simp add: queue_push_def Let_def)
  show "ringSize q' = ringSize q" using room by (simp add: q'_def queue_push_def Let_def)
  show "front q' = front q" using room by (simp add: q'_def queue_push_def Let_def)
  show "unat (size_q q') = Suc (unat (size_q q))"
    using room by (simp add: q'_def queue_push_def Let_def unat_inc_below)
  show "ring q' = (ring q)[unat (back_q q) := m]"
    using room by (simp add: q'_def queue_push_def Let_def)
  have "unat (back_q q') = (if Suc (unat (back_q q)) = unat (ringSize q) then 0 else Suc (unat (back_q q)))"
    using room bkw by (simp add: q'_def queue_push_def Let_def inc_eq_iff unat_inc_below)
  also have "\<dots> = (unat (front q) + Suc (unat (size_q q))) mod unat (ringSize q)"
    using wf pos by (intro mod_Suc_step) (simp_all add: queue_wf_def)
  finally show "unat (back_q q') = (unat (front q) + Suc (unat (size_q q))) mod unat (ringSize q)" .
qed

lemma push_wf:
  assumes wf: "queue_wf q" and room: "size_q q < ringSize q"
  shows "queue_wf (snd (queue_push who m q))"
proof -
  have "unat (size_q q) < unat (ringSize q)" using room by (simp add: word_less_nat_alt)
  then show ?thesis
    using wf push_fields [OF wf room, of who m]
    by (simp add: queue_wf_def)
qed

lemma push_contents:
  assumes wf: "queue_wf q" and room: "size_q q < ringSize q"
  shows "contents (snd (queue_push who m q)) = contents q @ [m]"
proof -
  let ?C = "unat (ringSize q)" and ?f = "unat (front q)" and ?s = "unat (size_q q)"
  have s: "?s < ?C" using room by (simp add: word_less_nat_alt)
  have b: "unat (back_q q) = (?f + ?s) mod ?C" using wf by (simp add: queue_wf_def)
  have len: "length (ring q) = ?C" using wf by (simp add: queue_wf_def)
  have old: "(ring q)[unat (back_q q) := m] ! ((?f + i) mod ?C) = ring q ! ((?f + i) mod ?C)"
    if "i < ?s" for i
    using mod_distinct [OF that s, of ?f] b by simp
  have new: "(ring q)[unat (back_q q) := m] ! ((?f + ?s) mod ?C) = m"
    using b len s by simp
  show ?thesis
    using push_fields [OF wf room, of who m] old new
    by (simp add: contents_def)
qed


lemma pop_fields:
  fixes d
  assumes wf: "queue_wf (queue d)" and ne: "size_q (queue d) \<noteq> 0" and poll: "\<not> usingCallback d"
  defines "q \<equiv> queue d"
  defines "d' \<equiv> snd (snd (getMessage d))"
  shows "fst (getMessage d) =
           (timeStamp (ring q ! unat (front q)), bytes (ring q ! unat (front q)))"
    and "usingCallback d' = usingCallback d"
    and "ringSize (queue d') = ringSize q"
    and "ring (queue d') = ring q"
    and "back_q (queue d') = back_q q"
    and "unat (size_q (queue d')) = unat (size_q q) - 1"
    and "unat (front (queue d')) = (if Suc (unat (front q)) = unat (ringSize q) then 0 else Suc (unat (front q)))"
proof -
  have fr: "front q < ringSize q"
    using wf by (simp add: queue_wf_def q_def word_less_nat_alt)
  show "fst (getMessage d) =
           (timeStamp (ring q ! unat (front q)), bytes (ring q ! unat (front q)))"
    using ne poll by (simp add: getMessage_def Let_def q_def)
  show "usingCallback d' = usingCallback d"
    using ne poll by (simp add: getMessage_def Let_def d'_def)
  show "ringSize (queue d') = ringSize q"
    using ne poll by (simp add: getMessage_def Let_def d'_def q_def)
  show "ring (queue d') = ring q"
    using ne poll by (simp add: getMessage_def Let_def d'_def q_def)
  show "back_q (queue d') = back_q q"
    using ne poll by (simp add: getMessage_def Let_def d'_def q_def)
  show "unat (size_q (queue d')) = unat (size_q q) - 1"
    using ne poll by (simp add: getMessage_def Let_def d'_def q_def unat_dec)
  show "unat (front (queue d')) = (if Suc (unat (front q)) = unat (ringSize q) then 0 else Suc (unat (front q)))"
    using ne poll fr
    by (simp add: getMessage_def Let_def d'_def q_def [symmetric] inc_eq_iff unat_inc_below)
qed

lemma pop_wf:
  assumes wf: "queue_wf (queue d)" and ne: "size_q (queue d) \<noteq> 0" and poll: "\<not> usingCallback d"
  shows "queue_wf (queue (snd (snd (getMessage d))))"
proof -
  let ?C = "unat (ringSize (queue d))" and ?f = "unat (front (queue d))"
  let ?s = "unat (size_q (queue d))"
  have s: "0 < ?s" using ne by (simp add: unat_gt_0)
  have f: "?f < ?C" using wf by (simp add: queue_wf_def)
  have "(?f + ?s) mod ?C = (?f + Suc (?s - 1)) mod ?C" using s by simp
  also have "\<dots> = ((if Suc ?f = ?C then 0 else Suc ?f) + (?s - 1)) mod ?C"
    using mod_front_step [OF f, of "?s - 1"] by simp
  finally have "(?f + ?s) mod ?C = ((if Suc ?f = ?C then 0 else Suc ?f) + (?s - 1)) mod ?C" .
  moreover have "?s - 1 \<le> ?C" using wf unfolding queue_wf_def by linarith
  ultimately show ?thesis
    using wf f pop_fields [OF wf ne poll]
    by (simp add: queue_wf_def)
qed

lemma pop_contents:
  assumes wf: "queue_wf (queue d)" and ne: "size_q (queue d) \<noteq> 0" and poll: "\<not> usingCallback d"
  shows "contents (queue d) = ring (queue d) ! unat (front (queue d))
           # contents (queue (snd (snd (getMessage d))))"
proof -
  let ?C = "unat (ringSize (queue d))" and ?f = "unat (front (queue d))"
  let ?s = "unat (size_q (queue d))"
  let ?r = "ring (queue d)"
  have s: "0 < ?s" using ne by (simp add: unat_gt_0)
  have f: "?f < ?C" using wf by (simp add: queue_wf_def)
  have "[0 ..< ?s] = 0 # map Suc [0 ..< ?s - 1]"
    using s by (metis Suc_pred' map_Suc_upt upt_conv_Cons)
  then have "contents (queue d) = ?r ! (?f mod ?C) # map (\<lambda>i. ?r ! ((?f + Suc i) mod ?C)) [0 ..< ?s - 1]"
    by (simp add: contents_def comp_def)
  also have "\<dots> = ?r ! ?f # map (\<lambda>i. ?r ! (((if Suc ?f = ?C then 0 else Suc ?f) + i) mod ?C)) [0 ..< ?s - 1]"
    using f mod_front_step [OF f] by simp
  also have "map (\<lambda>i. ?r ! (((if Suc ?f = ?C then 0 else Suc ?f) + i) mod ?C)) [0 ..< ?s - 1]
      = contents (queue (snd (snd (getMessage d))))"
    using pop_fields [OF wf ne poll] by (simp add: contents_def)
  finally show ?thesis .
qed


lemma length_contents: "length (contents q) = unat (size_q q)"
  by (simp add: contents_def)

lemma deliver_queue_mode:
  "\<not> usingCallback d \<Longrightarrow>
     snd (deliver who m d) = d\<lparr>queue := snd (queue_push who m (queue d))\<rparr>"
  by (simp add: deliver_def split: prod.splits)

lemma push_all_contents:
  assumes "queue_wf (queue d)" and "\<not> usingCallback d"
    and "unat (size_q (queue d)) + length ms \<le> unat (ringSize (queue d))"
  shows "queue_wf (queue (push_all who ms d)) \<and> \<not> usingCallback (push_all who ms d)
         \<and> contents (queue (push_all who ms d)) = contents (queue d) @ ms"
  using assms
proof (induction ms arbitrary: d)
  case Nil
  then show ?case by simp
next
  case (Cons m ms)
  let ?d1 = "snd (deliver who m d)"
  have room: "size_q (queue d) < ringSize (queue d)"
    using Cons.prems(3) by (simp add: word_less_nat_alt)
  have d1: "?d1 = d\<lparr>queue := snd (queue_push who m (queue d))\<rparr>"
    using Cons.prems(2) by (rule deliver_queue_mode)
  have wf1: "queue_wf (queue ?d1)"
    using push_wf [OF Cons.prems(1) room] d1 by simp
  have cb1: "\<not> usingCallback ?d1" using Cons.prems(2) d1 by simp
  have c1: "contents (queue ?d1) = contents (queue d) @ [m]"
    using push_contents [OF Cons.prems(1) room] d1 by simp
  have sz1: "unat (size_q (queue ?d1)) + length ms \<le> unat (ringSize (queue ?d1))"
    using push_fields(2,4) [OF Cons.prems(1) room, of who m] Cons.prems(3) d1 by simp
  show ?case
    using Cons.IH [OF wf1 cb1 sz1] c1 by simp
qed

lemma poll_n_contents:
  assumes "queue_wf (queue d)" and "\<not> usingCallback d" and "n \<le> unat (size_q (queue d))"
  shows "fst (poll_n n d) = map (\<lambda>m. (timeStamp m, bytes m)) (take n (contents (queue d)))"
  using assms
proof (induction n arbitrary: d)
  case 0
  then show ?case by simp
next
  case (Suc n)
  let ?d1 = "snd (snd (getMessage d))"
  let ?m = "ring (queue d) ! unat (front (queue d))"
  have ne: "size_q (queue d) \<noteq> 0"
    using Suc.prems(3) by (auto simp: unat_eq_0)
  note pf = pop_fields [OF Suc.prems(1) ne Suc.prems(2)]
  have wf1: "queue_wf (queue ?d1)" by (rule pop_wf [OF Suc.prems(1) ne Suc.prems(2)])
  have cb1: "\<not> usingCallback ?d1" using pf(2) Suc.prems(2) by simp
  have sz1: "n \<le> unat (size_q (queue ?d1))" using pf(6) Suc.prems(3) by simp
  have c: "contents (queue d) = ?m # contents (queue ?d1)"
    by (rule pop_contents [OF Suc.prems(1) ne Suc.prems(2)])
  have "fst (poll_n (Suc n) d) = fst (getMessage d) # fst (poll_n n ?d1)"
    by (simp split: prod.splits)
  then show ?case
    using Suc.IH [OF wf1 cb1 sz1] pf(1) c by simp
qed

text \<open>
  C1. Starting from an empty queue of capacity \<open>C\<close> (wherever \<open>front\<close> stands in the
  ring), pushing \<open>N \<le> C\<close> messages through the sink in queue mode and then polling
  \<open>N\<close> times with \<open>getMessage\<close> returns the delta time and the bytes of each pushed
  message, in the order pushed. With capacity 0 there is nothing to push.
\<close>

theorem push_pop_roundtrip:
  assumes "queue_wf (queue d) \<or> ringSize (queue d) = 0"
    and "size_q (queue d) = 0"
    and "\<not> usingCallback d"
    and "length ms \<le> unat (ringSize (queue d))"
  shows "fst (poll_n (length ms) (push_all who ms d)) = map (\<lambda>m. (timeStamp m, bytes m)) ms"
proof (cases "ringSize (queue d) = 0")
  case True
  then show ?thesis using assms(4) by simp
next
  case False
  then have wf: "queue_wf (queue d)" using assms(1) by simp
  have sz: "unat (size_q (queue d)) + length ms \<le> unat (ringSize (queue d))"
    using assms(2,4) by simp
  note pa = push_all_contents [OF wf assms(3) sz, of who]
  have c0: "contents (queue d) = []" using assms(2) by (simp add: contents_def)
  have len: "length ms \<le> unat (size_q (queue (push_all who ms d)))"
    using pa c0 length_contents [of "queue (push_all who ms d)"] by simp
  show ?thesis
    using poll_n_contents [of "push_all who ms d" "length ms"] pa c0 len by simp
qed

theorem push_pop_roundtrip_witness:
  "fst (poll_n 2
     (push_all ''RtMidiIn''
        [\<lparr>bytes = [0x90, 60, 100], timeStamp = 0\<rparr>, \<lparr>bytes = [0x80, 60, 0], timeStamp = 1 / 2\<rparr>]
        (MidiInApi_new 7 2)))
   = [(0, [0x90, 60, 100]), (1 / 2, [0x80, 60, 0])]"
proof -
  let ?ms = "[\<lparr>bytes = [0x90, 60, 100], timeStamp = 0\<rparr>,
              \<lparr>bytes = [0x80, 60, 0], timeStamp = 1 / 2\<rparr>] :: MidiMessage list"
  let ?d = "MidiInApi_new 7 2"
  have len: "length ?ms = 2" by simp
  have h1: "queue_wf (queue ?d) \<or> ringSize (queue ?d) = 0"
    by (simp add: MidiInApi_new_def queue_wf_def)
  have h2: "size_q (queue ?d) = 0" by (simp add: MidiInApi_new_def)
  have h3: "\<not> usingCallback ?d" by (simp add: MidiInApi_new_def)
  have h4: "length ?ms \<le> unat (ringSize (queue ?d))" by (simp add: MidiInApi_new_def)
  have "fst (poll_n (length ?ms) (push_all ''RtMidiIn'' ?ms ?d))
        = map (\<lambda>m. (timeStamp m, bytes m)) ?ms"
    by (rule push_pop_roundtrip [OF h1 h2 h3 h4])
  then show ?thesis unfolding len by simp
qed

text \<open>
  C2. A push on a queue whose size equals its capacity is refused: the only effect is
  the queue-limit diagnostic, and the queue (size, front, back, every slot) is
  returned unchanged.
\<close>

theorem push_full_refused:
  assumes "size_q q = ringSize q"
  shows "queue_push who m q = ([Cerr (who @ '': message queue limit reached!!'')], q)"
  using assms by (simp add: queue_push_def)

theorem push_full_refused_witness:
  "queue_push ''RtMidiIn'' \<lparr>bytes = [0x90, 60, 100], timeStamp = 0\<rparr>
     \<lparr>front = 1, back_q = 1, size_q = 2, ringSize = 2,
      ring = [\<lparr>bytes = [0xF8], timeStamp = 0\<rparr>, \<lparr>bytes = [0xFE], timeStamp = 1\<rparr>]\<rparr>
   = ([Cerr ''RtMidiIn: message queue limit reached!!''],
      \<lparr>front = 1, back_q = 1, size_q = 2, ringSize = 2,
       ring = [\<lparr>bytes = [0xF8], timeStamp = 0\<rparr>, \<lparr>bytes = [0xFE], timeStamp = 1\<rparr>]\<rparr>)"
  using push_full_refused [of "\<lparr>front = 1, back_q = 1, size_q = 2, ringSize = 2,
      ring = [\<lparr>bytes = [0xF8], timeStamp = 0\<rparr>, \<lparr>bytes = [0xFE], timeStamp = 1\<rparr>]\<rparr>"
      "''RtMidiIn''" "\<lparr>bytes = [0x90, 60, 100], timeStamp = 0\<rparr>"]
  by simp

text \<open>
  C3. A poll on a queue of size 0 returns at once with no bytes and delta time 0.0, and
  the input data (the queue with its size, front, back and slots) is unchanged.
  \<open>getMessage\<close> has no loop and no wait: it is a total function of the state.
\<close>

theorem pop_empty_unchanged:
  assumes "size_q (queue d) = 0"
  shows "fst (getMessage d) = (0, []) \<and> snd (snd (getMessage d)) = d"
  using assms by (simp add: getMessage_def)

theorem pop_empty_unchanged_witness:
  "fst (getMessage (MidiInApi_new 7 4)) = (0, [])
   \<and> snd (snd (getMessage (MidiInApi_new 7 4))) = MidiInApi_new 7 4"
  using pop_empty_unchanged [of "MidiInApi_new 7 4"]
  by (simp add: MidiInApi_new_def)

text \<open>
  C4. The push block and \<open>getMessage\<close> preserve the queue invariant: size at most
  the capacity, \<open>front\<close> and \<open>back\<close> below the capacity; the capacity itself never
  changes; and a push on a full queue returns the queue as it was, no slot
  overwritten.
\<close>

theorem queue_inv_preserved:
  assumes "queue_inv (queue d)"
  shows "queue_inv (snd (queue_push who m (queue d)))
       \<and> ringSize (snd (queue_push who m (queue d))) = ringSize (queue d)
       \<and> queue_inv (queue (snd (snd (getMessage d))))
       \<and> ringSize (queue (snd (snd (getMessage d)))) = ringSize (queue d)
       \<and> (size_q (queue d) = ringSize (queue d) \<longrightarrow>
            snd (queue_push who m (queue d)) = queue d)"
proof -
  have "queue_inv (snd (queue_push who m (queue d)))"
    using assms unfolding queue_inv_def queue_push_def Let_def by (simp; unat_arith)
  moreover have "queue_inv (queue (snd (snd (getMessage d))))"
    using assms unfolding queue_inv_def getMessage_def Let_def by (simp; unat_arith)
  moreover have "ringSize (snd (queue_push who m (queue d))) = ringSize (queue d)"
    by (simp add: queue_push_def Let_def)
  moreover have "ringSize (queue (snd (snd (getMessage d)))) = ringSize (queue d)"
    by (simp add: getMessage_def Let_def)
  moreover have "size_q (queue d) = ringSize (queue d) \<longrightarrow>
            snd (queue_push who m (queue d)) = queue d"
    by (simp add: queue_push_def)
  ultimately show ?thesis by simp
qed

theorem queue_inv_preserved_witness:
  "queue_inv (queue full_queue_example)
   \<and> size_q (queue full_queue_example) = ringSize (queue full_queue_example)
   \<and> queue_inv (snd (queue_push ''RtMidiIn'' \<lparr>bytes = [0x90, 60, 100], timeStamp = 0\<rparr>
                        (queue full_queue_example)))
   \<and> snd (queue_push ''RtMidiIn'' \<lparr>bytes = [0x90, 60, 100], timeStamp = 0\<rparr>
            (queue full_queue_example)) = queue full_queue_example
   \<and> queue_inv (queue (snd (snd (getMessage full_queue_example))))"
proof -
  have inv: "queue_inv (queue full_queue_example)"
    by (simp add: full_queue_example_def queue_inv_def)
  have full: "size_q (queue full_queue_example) = ringSize (queue full_queue_example)"
    by (simp add: full_queue_example_def)
  show ?thesis
    using inv full
      queue_inv_preserved [OF inv, of "''RtMidiIn''" "\<lparr>bytes = [0x90, 60, 100], timeStamp = 0\<rparr>"]
    by simp
qed

section \<open>Sysex reassembly in the ALSA handler\<close>

lemma decode_sysex_mid:
  assumes "ignoreFlags d AND 0x01 = 0" and "c = [] \<or> last c \<noteq> 0xF7"
  shows "\<exists>l'. alsaMidiHandler_decode (sysex_event t c) (d, a, l) = (False, d, a, l')
              \<and> pending l' = pending l @ c"
  using assms
  by (auto simp: alsaMidiHandler_decode_def doDecode_of_def sysex_event_def pending_def Let_def)

lemma decode_sysex_final:
  assumes "ignoreFlags d AND 0x01 = 0" and "c \<noteq> []" and "last c = 0xF7"
  shows "\<exists>d' a' l'. alsaMidiHandler_decode (sysex_event t c) (d, a, l) = (True, d', a', l')
              \<and> bytes (message_l l') = pending l @ c"
  using assms
  by (auto simp: alsaMidiHandler_decode_def doDecode_of_def sysex_event_def pending_def Let_def)

lemma alsa_feed_Cons:
  assumes "alsaMidiHandler_decode ev s = (ready, d, a, l)"
  shows "fst (alsa_feed (ev # evs) s)
         = (if ready then Some (message_l l) else None) # fst (alsa_feed evs (d, a, l))"
  using assms by (simp split: prod.splits)

lemma alsa_feed_sysex:
  assumes "length ts = length chunks" and "chunks \<noteq> []"
    and "ignoreFlags d AND 0x01 = 0"
    and "\<forall>c \<in> set (butlast chunks). c = [] \<or> last c \<noteq> 0xF7"
    and "last chunks \<noteq> []" and "last (last chunks) = 0xF7"
  shows "map (map_option bytes) (fst (alsa_feed (map2 sysex_event ts chunks) (d, a, l)))
         = replicate (length chunks - 1) None @ [Some (pending l @ concat chunks)]"
  using assms
proof (induction chunks arbitrary: ts l)
  case Nil
  then show ?case by simp
next
  case (Cons c cs)
  from Cons.prems(1) obtain t ts' where ts: "ts = t # ts'" and len: "length ts' = length cs"
    by (cases ts) auto
  show ?case
  proof (cases "cs = []")
    case True
    with Cons.prems have c: "c \<noteq> []" "last c = 0xF7" by simp_all
    from decode_sysex_final [OF Cons.prems(3) c, of t a l]
    obtain d' a' l' where
      "alsaMidiHandler_decode (sysex_event t c) (d, a, l) = (True, d', a', l')"
      "bytes (message_l l') = pending l @ c" by blast
    then show ?thesis using True ts len by (simp add: alsa_feed_Cons)
  next
    case False
    with Cons.prems have mid: "c = [] \<or> last c \<noteq> 0xF7" by simp
    from decode_sysex_mid [OF Cons.prems(3) mid, of t a l]
    obtain l' where step: "alsaMidiHandler_decode (sysex_event t c) (d, a, l) = (False, d, a, l')"
      and pend: "pending l' = pending l @ c" by blast
    have rest: "\<forall>c \<in> set (butlast cs). c = [] \<or> last c \<noteq> 0xF7"
      using Cons.prems(4) False by simp
    have fin: "last cs \<noteq> []" "last (last cs) = 0xF7"
      using Cons.prems(5,6) False by simp_all
    have "map (map_option bytes) (fst (alsa_feed (map2 sysex_event ts' cs) (d, a, l')))
          = replicate (length cs - 1) None @ [Some (pending l' @ concat cs)]"
      by (rule Cons.IH [OF len False Cons.prems(3) rest fin])
    moreover have "replicate (length cs) (None :: byte list option)
                   = None # replicate (length cs - 1) None"
      using False by (cases cs) simp_all
    ultimately show ?thesis
      using alsa_feed_Cons [OF step] pend ts by simp
  qed
qed

text \<open>
  C5. A sysex message arrives as one or more sysex events, each carrying a chunk. When
  sysex is not ignored, no sysex is pending, no intermediate chunk ends in the
  terminator 0xF7 (it ends the message, so only the last chunk carries it) and the
  last chunk ends in 0xF7, the handler hands nothing to the sink for the intermediate
  chunks and exactly one message for the last one, whose bytes are the chunks
  concatenated in arrival order. Chunks for which the decoder yields no bytes may
  occur in between; the buffer allocation is taken to succeed.
\<close>

theorem sysex_chunks_one_message:
  assumes "ignoreFlags d AND 0x01 = 0" and "\<not> continueSysex_l l"
    and "length ts = length chunks" and "chunks \<noteq> []"
    and "\<forall>c \<in> set (butlast chunks). c = [] \<or> last c \<noteq> 0xF7"
    and "last chunks \<noteq> []" and "last (last chunks) = 0xF7"
  shows "map (map_option bytes) (fst (alsa_feed (map2 sysex_event ts chunks) (d, a, l)))
         = replicate (length chunks - 1) None @ [Some (concat chunks)]"
  using alsa_feed_sysex [OF assms(3,4,1,5,6,7), of a l] assms(2)
  by (simp add: pending_def)

theorem sysex_chunks_one_message_witness:
  "map (map_option bytes)
     (fst (alsa_feed [sysex_event (0, 1000000) [0xF0, 1, 2], sysex_event (0, 2000000) [3, 0xF7]]
        (MidiInApi_new 0 4, \<lparr>lastTime_alsa = 0\<rparr>,
         \<lparr>continueSysex_l = False, message_l = \<lparr>bytes = [], timeStamp = 0\<rparr>\<rparr>)))
   = [None, Some [0xF0, 1, 2, 3, 0xF7]]"
proof -
  let ?chunks = "[[0xF0, 1, 2], [3, 0xF7]] :: byte list list"
  let ?ts = "[(0, 1000000), (0, 2000000)] :: (32 word \<times> 32 word) list"
  let ?l = "\<lparr>continueSysex_l = False, message_l = \<lparr>bytes = [], timeStamp = 0\<rparr>\<rparr>"
  have h1: "ignoreFlags (MidiInApi_new 0 4) AND 0x01 = 0" by (simp add: MidiInApi_new_def)
  have h2: "\<not> continueSysex_l ?l" by simp
  have h3: "length ?ts = length ?chunks" by simp
  have h4: "?chunks \<noteq> []" by simp
  have h5: "\<forall>c \<in> set (butlast ?chunks). c = [] \<or> last c \<noteq> 0xF7" by simp
  have h6: "last ?chunks \<noteq> []" by simp
  have h7: "last (last ?chunks) = 0xF7" by simp
  have "map (map_option bytes)
          (fst (alsa_feed (map2 sysex_event ?ts ?chunks)
             (MidiInApi_new 0 4, \<lparr>lastTime_alsa = 0\<rparr>, ?l)))
        = replicate (length ?chunks - 1) None @ [Some (concat ?chunks)]"
    by (rule sysex_chunks_one_message [OF h1 h2 h3 h4 h5 h6 h7])
  then show ?thesis by simp
qed

section \<open>Time stamps\<close>

lemma assemble_ready_not_other:
  "midiInputCallback_assemble ev rq t s = (es, True, s') \<Longrightarrow> ev \<noteq> MIM_OTHER"
  by (auto simp: midiInputCallback_assemble_def)

lemma assemble_stamp:
  assumes "midiInputCallback_assemble ev rq t (d, a) = (es, ready, d', a')" and "ev \<noteq> MIM_OTHER"
  shows "lastTime a' = t"
    and "\<not> firstMessage d'"
    and "timeStamp (message a')
         = (if firstMessage d then 0 else real (unat (t - lastTime a)) * 0.001)"
    and "queue d' = queue d"
    and "ignoreFlags d' = ignoreFlags d"
  using assms
  by (cases ev;
      auto simp: midiInputCallback_assemble_def calculate_time_stamp_def append_bytes_def Let_def
           split: if_splits option.splits)+

lemma decode_ready:
  assumes "alsaMidiHandler_decode e (d, b, l) = (True, d', b', l')"
  shows "lastTime_alsa b' = ev_time e"
    and "\<not> firstMessage d'"
    and "timeStamp (message_l l')
         = (if firstMessage d then 0 else real (unat (ev_time e - lastTime_alsa b)) * 0.000001)"
  using assms
  by (auto simp: alsaMidiHandler_decode_def doDecode_of_def Let_def
           split: if_splits snd_seq_event_type.splits)

lemma decode_not_ready:
  assumes "alsaMidiHandler_decode e (d, b, l) = (False, d', b', l')"
  shows "b' = b" and "firstMessage d' = firstMessage d"
  using assms
  by (auto simp: alsaMidiHandler_decode_def doDecode_of_def Let_def
           split: if_splits snd_seq_event_type.splits)

lemma unat_diff_32:
  fixes t1 t2 :: "32 word"
  shows "real (unat (t2 - t1))
         = (if t1 \<le> t2 then real (unat t2) - real (unat t1)
            else 2 ^ 32 + real (unat t2) - real (unat t1))"
proof (cases "t1 \<le> t2")
  case True
  then have "unat (t2 - t1) = unat t2 - unat t1" by (simp add: unat_sub)
  moreover have "unat t1 \<le> unat t2" using True by (simp add: word_le_nat_alt)
  ultimately show ?thesis using True by (simp add: of_nat_diff)
next
  case False
  then have lt: "unat t2 < unat t1" by (simp add: word_le_nat_alt)
  have "unat (t2 - t1) = unat t2 + 2 ^ 32 - unat t1"
    using lt by (simp add: unat_sub_if_size word_size)
  moreover have "unat t1 < 2 ^ 32" using unsigned_less [of t1] by simp
  ultimately show ?thesis using False lt by (simp add: of_nat_diff)
qed

lemma unat_diff_64:
  fixes t1 t2 :: "64 word"
  shows "real (unat (t2 - t1))
         = (if t1 \<le> t2 then real (unat t2) - real (unat t1)
            else 2 ^ 64 + real (unat t2) - real (unat t1))"
proof (cases "t1 \<le> t2")
  case True
  then have "unat (t2 - t1) = unat t2 - unat t1" by (simp add: unat_sub)
  moreover have "unat t1 \<le> unat t2" using True by (simp add: word_le_nat_alt)
  ultimately show ?thesis using True by (simp add: of_nat_diff)
next
  case False
  then have lt: "unat t2 < unat t1" by (simp add: word_le_nat_alt)
  have "unat (t2 - t1) = unat t2 + 2 ^ 64 - unat t1"
    using lt by (simp add: unat_sub_if_size word_size)
  moreover have "unat t1 < 2 ^ 64" using unsigned_less [of t1] by simp
  ultimately show ?thesis using False lt by (simp add: of_nat_diff)
qed

text \<open>
  The time the ALSA handler computes, as a natural number, and an event one hundred
  milliseconds after 4294.9 s: the 32-bit sum has wrapped.
\<close>

lemma ev_time_unat:
  "unat (ev_time e) = (unat (tv_sec e) * 1000000 + unat (tv_nsec e) div 1000) mod 2 ^ 32"
proof -
  let ?w = "tv_sec e * 1000000 + tv_nsec e div 1000"
  have "unat ?w < 2 ^ 32" using unsigned_less [of ?w] by simp
  then have "unat ?w < 2 ^ 64" by simp
  then have "unat (ucast ?w :: 64 word) = unat ?w"
    by (simp add: unsigned_ucast_eq take_bit_nat_eq_self)
  also have "\<dots> = (unat (tv_sec e * 1000000) + unat (tv_nsec e div 1000)) mod 2 ^ 32"
    by (simp add: unat_word_ariths)
  also have "unat (tv_sec e * 1000000) = unat (tv_sec e) * 1000000 mod 2 ^ 32"
    by (simp add: unat_word_ariths)
  also have "unat (tv_nsec e div 1000) = unat (tv_nsec e) div 1000"
    by (simp add: unat_div)
  finally show ?thesis by (simp add: ev_time_def mod_add_left_eq)
qed

lemma ev_time_wraps_example:
  "ev_time \<lparr>ev_type = SND_SEQ_EVENT_OTHER, tv_sec = 4294, tv_nsec = 900000000,
      ev_decoded = [], ev_resize_fails = False\<rparr> = 4294900000
   \<and> ev_time \<lparr>ev_type = SND_SEQ_EVENT_OTHER, tv_sec = 4295, tv_nsec = 0,
      ev_decoded = [], ev_resize_fails = False\<rparr> = 32704"
  by (simp add: ev_time_def)

text \<open>
  In the ALSA handler an event that hands nothing to the sink leaves \<open>firstMessage\<close>
  alone, so the first message handed to the sink after any such events is the first
  one stamped.
\<close>

lemma alsa_feed_first_message:
  assumes "firstMessage d"
    and "alsa_feed (pre @ [e]) (d, b, l) = (replicate (length pre) None @ [Some m], d', b', l')"
  shows "timeStamp m = 0 \<and> lastTime_alsa b' = ev_time e \<and> \<not> firstMessage d'"
  using assms
proof (induction pre arbitrary: d b l)
  case Nil
  obtain ready d1 b1 l1 where dec: "alsaMidiHandler_decode e (d, b, l) = (ready, d1, b1, l1)"
    by (metis prod_cases4)
  with Nil.prems(2) have r: "ready" and m: "m = message_l l1"
    and s: "d' = d1" "b' = b1" "l' = l1"
    by (auto split: if_splits)
  from dec r have dec': "alsaMidiHandler_decode e (d, b, l) = (True, d1, b1, l1)" by simp
  show ?case using decode_ready [OF dec'] Nil.prems(1) m s by simp
next
  case (Cons p pre)
  obtain ready d1 b1 l1 where dec: "alsaMidiHandler_decode p (d, b, l) = (ready, d1, b1, l1)"
    by (metis prod_cases4)
  obtain rs s2 where rest: "alsa_feed (pre @ [e]) (d1, b1, l1) = (rs, s2)"
    by (metis surj_pair)
  from Cons.prems(2) dec rest have r: "\<not> ready"
    and rs: "rs = replicate (length pre) None @ [Some m]" and s2: "s2 = (d', b', l')"
    by (auto split: if_splits)
  from dec r have dec': "alsaMidiHandler_decode p (d, b, l) = (False, d1, b1, l1)" by simp
  have f1: "firstMessage d1" using decode_not_ready(2) [OF dec'] Cons.prems(1) by simp
  show ?case using Cons.IH [OF f1] rest rs s2 by simp
qed

text \<open>
  C6, as stated, fails in the Windows MM callback: on fresh input data a short
  message whose first byte is 0x3C arrives at native time 1000 and is dropped, but
  it is stamped; the note-on at 1500 is then the first message completed on the
  connection, and the user callback receives it with delta time 0.5, not 0.0.
\<close>

theorem first_completed_winmm_counterexample:
  "firstMessage ((MidiInApi_new 0 4)\<lparr>usingCallback := True\<rparr>)
   \<and> midiInputCallback (MIM_DATA 0x00403C) True 1000
       ((MidiInApi_new 0 4)\<lparr>usingCallback := True\<rparr>,
        \<lparr>lastTime = 0, message = \<lparr>bytes = [], timeStamp = 0\<rparr>\<rparr>)
     = ([], (MidiInApi_new 0 4)\<lparr>usingCallback := True, firstMessage := False\<rparr>,
        \<lparr>lastTime = 1000, message = \<lparr>bytes = [], timeStamp = 0\<rparr>\<rparr>)
   \<and> midiInputCallback (MIM_DATA 0x403C90) True 1500
       ((MidiInApi_new 0 4)\<lparr>usingCallback := True, firstMessage := False\<rparr>,
        \<lparr>lastTime = 1000, message = \<lparr>bytes = [], timeStamp = 0\<rparr>\<rparr>)
     = ([UserCallback (1 / 2) [0x90, 0x3C, 0x40]],
        (MidiInApi_new 0 4)\<lparr>usingCallback := True, firstMessage := False\<rparr>,
        \<lparr>lastTime = 1500, message = \<lparr>bytes = [], timeStamp = 1 / 2\<rparr>\<rparr>)
   \<and> (1 / 2 :: real) \<noteq> 0"
  by (simp add: midiInputCallback_def midiInputCallback_assemble_def calculate_time_stamp_def
      nBytes_of_def packed_bytes_def append_bytes_def deliver_def MidiInApi_new_def Let_def
      upt_rec)

text \<open>
  C6, amended. On input data that has stamped nothing yet (\<open>firstMessage\<close> set, as
  on a freshly created connection):
  \<^item> the ALSA handler stamps only the events that hand a message to the sink, so the
    first message completed on the connection, after any number of events that
    complete none, has delta time 0.0, and the time the handler computes for its
    event is recorded as the baseline;
  \<^item> the JACK callback, with no sysex continuation flagged, hands its first event to
    the sink with delta time 0.0 and records the time as the baseline;
  \<^item> the Windows MM callback stamps every data, long-data or long-error callback,
    whether or not it completes a message: the first such callback gets 0.0 and
    records its native time \<open>t\<close>, and a message completed after it has the delta
    measured from the recorded time.
\<close>

theorem first_stamp_delta_zero:
  "(firstMessage d \<and> ev \<noteq> MIM_OTHER
      \<and> midiInputCallback_assemble ev rq t (d, a) = (es, ready, d', a')
      \<longrightarrow> timeStamp (message a') = 0 \<and> lastTime a' = t \<and> \<not> firstMessage d')
   \<and> (\<not> firstMessage d \<and> midiInputCallback_assemble ev rq t (d, a) = (es, True, d', a')
      \<longrightarrow> timeStamp (message a') = real (unat (t - lastTime a)) * 0.001)
   \<and> (firstMessage d
      \<and> alsa_feed (pre @ [e]) (d, b, l) = (replicate (length pre) None @ [Some m], d'', b', l')
      \<longrightarrow> timeStamp m = 0 \<and> lastTime_alsa b' = ev_time e \<and> \<not> firstMessage d'')
   \<and> (firstMessage d \<and> \<not> continueSysex d
      \<longrightarrow> jackProcessIn_event buffer time (d, j)
          = (fst (deliver ''MidiInJack'' \<lparr>bytes = buffer, timeStamp = 0\<rparr>
                    (d\<lparr>firstMessage := False\<rparr>)),
             snd (deliver ''MidiInJack'' \<lparr>bytes = buffer, timeStamp = 0\<rparr>
                    (d\<lparr>firstMessage := False\<rparr>)),
             j\<lparr>lastTime_jack := time\<rparr>))"
proof (intro conjI impI)
  assume h: "firstMessage d \<and> ev \<noteq> MIM_OTHER
      \<and> midiInputCallback_assemble ev rq t (d, a) = (es, ready, d', a')"
  then have r: "midiInputCallback_assemble ev rq t (d, a) = (es, ready, d', a')"
    and o: "ev \<noteq> MIM_OTHER" by simp_all
  note st = assemble_stamp [OF r o]
  show "timeStamp (message a') = 0" using st(3) h by simp
  show "lastTime a' = t" by (rule st(1))
  show "\<not> firstMessage d'" by (rule st(2))
next
  assume h: "\<not> firstMessage d \<and> midiInputCallback_assemble ev rq t (d, a) = (es, True, d', a')"
  then have r: "midiInputCallback_assemble ev rq t (d, a) = (es, True, d', a')" by simp
  show "timeStamp (message a') = real (unat (t - lastTime a)) * 0.001"
    using assemble_stamp(3) [OF r assemble_ready_not_other [OF r]] h by simp
next
  assume h: "firstMessage d
      \<and> alsa_feed (pre @ [e]) (d, b, l) = (replicate (length pre) None @ [Some m], d'', b', l')"
  then have f: "firstMessage d"
    and r: "alsa_feed (pre @ [e]) (d, b, l) = (replicate (length pre) None @ [Some m], d'', b', l')"
    by simp_all
  note fm = alsa_feed_first_message [OF f r]
  show "timeStamp m = 0" using fm by simp
  show "lastTime_alsa b' = ev_time e" using fm by simp
  show "\<not> firstMessage d''" using fm by simp
next
  assume "firstMessage d \<and> \<not> continueSysex d"
  then show "jackProcessIn_event buffer time (d, j)
          = (fst (deliver ''MidiInJack'' \<lparr>bytes = buffer, timeStamp = 0\<rparr>
                    (d\<lparr>firstMessage := False\<rparr>)),
             snd (deliver ''MidiInJack'' \<lparr>bytes = buffer, timeStamp = 0\<rparr>
                    (d\<lparr>firstMessage := False\<rparr>)),
             j\<lparr>lastTime_jack := time\<rparr>)"
    by (simp add: jackProcessIn_event_def MidiMessage_new_def Let_def split: prod.splits)
qed

theorem first_stamp_delta_zero_witness:
  "midiInputCallback_assemble (MIM_DATA 0x00403C) True 1000
     (MidiInApi_new 0 4, \<lparr>lastTime = 99, message = \<lparr>bytes = [], timeStamp = 7\<rparr>\<rparr>)
   = ([], False, (MidiInApi_new 0 4)\<lparr>firstMessage := False\<rparr>,
      \<lparr>lastTime = 1000, message = \<lparr>bytes = [], timeStamp = 0\<rparr>\<rparr>)
   \<and> midiInputCallback_assemble (MIM_DATA 0x403C90) True 1500
     ((MidiInApi_new 0 4)\<lparr>firstMessage := False\<rparr>,
      \<lparr>lastTime = 1000, message = \<lparr>bytes = [], timeStamp = 0\<rparr>\<rparr>)
   = ([], True, (MidiInApi_new 0 4)\<lparr>firstMessage := False\<rparr>,
      \<lparr>lastTime = 1500, message = \<lparr>bytes = [0x90, 0x3C, 0x40], timeStamp = 1 / 2\<rparr>\<rparr>)
   \<and> alsa_feed
     [\<lparr>ev_type = SND_SEQ_EVENT_CLOCK, tv_sec = 0, tv_nsec = 5000000, ev_decoded = [0xF8],
       ev_resize_fails = False\<rparr>,
      \<lparr>ev_type = SND_SEQ_EVENT_OTHER, tv_sec = 0, tv_nsec = 6000000, ev_decoded = [0x90, 60, 100],
       ev_resize_fails = False\<rparr>]
     (MidiInApi_new 2 4, \<lparr>lastTime_alsa = 99\<rparr>,
      \<lparr>continueSysex_l = False, message_l = \<lparr>bytes = [], timeStamp = 7\<rparr>\<rparr>)
   = ([None, Some \<lparr>bytes = [0x90, 60, 100], timeStamp = 0\<rparr>],
      (MidiInApi_new 2 4)\<lparr>firstMessage := False\<rparr>, \<lparr>lastTime_alsa = 6000\<rparr>,
      \<lparr>continueSysex_l = False, message_l = \<lparr>bytes = [0x90, 60, 100], timeStamp = 0\<rparr>\<rparr>)
   \<and> jackProcessIn_event [0x90, 60, 100] 777
     ((MidiInApi_new 0 4)\<lparr>usingCallback := True\<rparr>, \<lparr>lastTime_jack = 5\<rparr>)
   = ([UserCallback 0 [0x90, 60, 100]],
      (MidiInApi_new 0 4)\<lparr>usingCallback := True, firstMessage := False\<rparr>,
      \<lparr>lastTime_jack = 777\<rparr>)"
proof -
  let ?d = "MidiInApi_new 0 4"
  let ?d' = "(MidiInApi_new 0 4)\<lparr>firstMessage := False\<rparr>"
  let ?a = "\<lparr>lastTime = 99, message = \<lparr>bytes = [], timeStamp = 7\<rparr>\<rparr>"
  let ?a1 = "\<lparr>lastTime = 1000, message = \<lparr>bytes = [], timeStamp = 0\<rparr>\<rparr>"
  let ?a2 = "\<lparr>lastTime = 1500, message = \<lparr>bytes = [0x90, 0x3C, 0x40], timeStamp = 1 / 2\<rparr>\<rparr>"
  let ?p = "\<lparr>ev_type = SND_SEQ_EVENT_CLOCK, tv_sec = 0, tv_nsec = 5000000, ev_decoded = [0xF8],
       ev_resize_fails = False\<rparr>"
  let ?e = "\<lparr>ev_type = SND_SEQ_EVENT_OTHER, tv_sec = 0, tv_nsec = 6000000,
       ev_decoded = [0x90, 60, 100], ev_resize_fails = False\<rparr>"
  let ?g = "MidiInApi_new 2 4"
  let ?g' = "(MidiInApi_new 2 4)\<lparr>firstMessage := False\<rparr>"
  let ?b = "\<lparr>lastTime_alsa = 99\<rparr>"
  let ?b' = "\<lparr>lastTime_alsa = 6000\<rparr>"
  let ?l = "\<lparr>continueSysex_l = False, message_l = \<lparr>bytes = [], timeStamp = 7\<rparr>\<rparr>"
  let ?m = "\<lparr>bytes = [0x90, 60, 100], timeStamp = 0\<rparr> :: MidiMessage"
  let ?l' = "\<lparr>continueSysex_l = False, message_l = ?m\<rparr>"
  let ?k = "(MidiInApi_new 0 4)\<lparr>usingCallback := True\<rparr>"
  let ?j = "\<lparr>lastTime_jack = 5\<rparr>"
  have f1: "firstMessage ?d" "MIM_DATA 0x00403C \<noteq> MIM_OTHER" by (simp_all add: MidiInApi_new_def)
  have w1: "midiInputCallback_assemble (MIM_DATA 0x00403C) True 1000 (?d, ?a) = ([], False, ?d', ?a1)"
    by (simp add: midiInputCallback_assemble_def calculate_time_stamp_def MidiInApi_new_def Let_def)
  have f2: "\<not> firstMessage ?d'" by simp
  have w2: "midiInputCallback_assemble (MIM_DATA 0x403C90) True 1500 (?d', ?a1) = ([], True, ?d', ?a2)"
    by (simp add: midiInputCallback_assemble_def calculate_time_stamp_def nBytes_of_def
        packed_bytes_def append_bytes_def MidiInApi_new_def Let_def upt_rec)
  have f3: "firstMessage ?g" by (simp add: MidiInApi_new_def)
  have x: "alsa_feed ([?p] @ [?e]) (?g, ?b, ?l)
           = (replicate (length [?p]) None @ [Some ?m], ?g', ?b', ?l')"
    by (simp add: alsaMidiHandler_decode_def doDecode_of_def ev_time_def MidiInApi_new_def Let_def)
  have f4: "firstMessage ?k" "\<not> continueSysex ?k" by (simp_all add: MidiInApi_new_def)
  from first_stamp_delta_zero [where d = ?d and ev = "MIM_DATA 0x00403C" and rq = True
      and t = 1000 and a = ?a and es = "[]" and ready = False and d' = ?d' and a' = ?a1]
    first_stamp_delta_zero [where d = ?d' and ev = "MIM_DATA 0x403C90" and rq = True
      and t = 1500 and a = ?a1 and es = "[]" and d' = ?d' and a' = ?a2]
    first_stamp_delta_zero [where d = ?g and pre = "[?p]" and e = ?e and b = ?b and l = ?l
      and m = ?m and d'' = ?g' and b' = ?b' and l' = ?l']
    first_stamp_delta_zero [where d = ?k and buffer = "[0x90, 60, 100]" and time = 777 and j = ?j]
    f1 w1 f2 w2 f3 x f4
  show ?thesis by (simp add: deliver_def MidiInApi_new_def)
qed

text \<open>
  C7, as stated, fails: with the baseline at 5 and a message at native time 3 the
  Windows MM callback stamps the delta 4294967.294 seconds, the unsigned difference
  wrapped modulo \<open>2^32\<close>, not 0.0.
\<close>

theorem delta_not_clamped_counterexample:
  "\<not> firstMessage ((MidiInApi_new 0 4)\<lparr>firstMessage := False\<rparr>)
   \<and> (3 :: 32 word) < 5
   \<and> midiInputCallback_assemble (MIM_DATA 0x403C90) True 3
       ((MidiInApi_new 0 4)\<lparr>firstMessage := False\<rparr>,
        \<lparr>lastTime = 5, message = \<lparr>bytes = [], timeStamp = 0\<rparr>\<rparr>)
     = ([], True, (MidiInApi_new 0 4)\<lparr>firstMessage := False\<rparr>,
        \<lparr>lastTime = 3,
         message = \<lparr>bytes = [0x90, 0x3C, 0x40], timeStamp = 4294967294 / 1000\<rparr>\<rparr>)
   \<and> (4294967294 / 1000 :: real) \<noteq> 0"
  by (simp add: midiInputCallback_assemble_def calculate_time_stamp_def nBytes_of_def
      packed_bytes_def append_bytes_def MidiInApi_new_def Let_def upt_rec)

text \<open>
  C7, amended. For a message that is not the first, stamped at time \<open>t2\<close> with the
  baseline at \<open>t1\<close>. In the Windows MM callback \<open>t2\<close> is the native 32-bit
  millisecond time: the delta is \<open>(t2 - t1) * 0.001\<close> when \<open>t1 \<le> t2\<close>; when
  \<open>t2 < t1\<close> there is no clamp, the unsigned subtraction wraps and the delta is
  \<open>(2^32 + t2 - t1) * 0.001\<close>. In the ALSA handler \<open>t2\<close> is the microsecond time
  the handler computes for the event, which is \<open>tv_sec * 1000000 + tv_nsec / 1000\<close>
  whenever that is below \<open>2^32\<close>: the delta is \<open>(t2 - t1) * 0.000001\<close> when
  \<open>t1 \<le> t2\<close> and \<open>(2^64 + t2 - t1) * 0.000001\<close> when \<open>t2 < t1\<close>. The delta is
  never negative.
\<close>

theorem delta_is_wrapped_difference:
  "(\<not> firstMessage d \<and> midiInputCallback_assemble ev rq t2 (d, a) = (es, True, d', a')
      \<longrightarrow> timeStamp (message a')
            = (if lastTime a \<le> t2 then real (unat t2) - real (unat (lastTime a))
               else 2 ^ 32 + real (unat t2) - real (unat (lastTime a))) * 0.001
          \<and> 0 \<le> timeStamp (message a'))
   \<and> (\<not> firstMessage d \<and> alsaMidiHandler_decode e (d, b, l) = (True, d'', b', l')
      \<longrightarrow> timeStamp (message_l l')
            = (if lastTime_alsa b \<le> ev_time e
               then real (unat (ev_time e)) - real (unat (lastTime_alsa b))
               else 2 ^ 64 + real (unat (ev_time e)) - real (unat (lastTime_alsa b))) * 0.000001
          \<and> 0 \<le> timeStamp (message_l l'))
   \<and> (unat (tv_sec e) * 1000000 + unat (tv_nsec e) div 1000 < 2 ^ 32
      \<longrightarrow> unat (ev_time e) = unat (tv_sec e) * 1000000 + unat (tv_nsec e) div 1000)"
proof (intro conjI impI)
  assume h: "\<not> firstMessage d \<and> midiInputCallback_assemble ev rq t2 (d, a) = (es, True, d', a')"
  then have r: "midiInputCallback_assemble ev rq t2 (d, a) = (es, True, d', a')" by simp
  have ts: "timeStamp (message a') = real (unat (t2 - lastTime a)) * 0.001"
    using assemble_stamp(3) [OF r assemble_ready_not_other [OF r]] h by simp
  show "timeStamp (message a')
        = (if lastTime a \<le> t2 then real (unat t2) - real (unat (lastTime a))
           else 2 ^ 32 + real (unat t2) - real (unat (lastTime a))) * 0.001"
    unfolding ts unat_diff_32 by simp
  show "0 \<le> timeStamp (message a')"
    unfolding ts by (rule mult_nonneg_nonneg) (rule of_nat_0_le_iff, simp)
next
  assume h: "\<not> firstMessage d \<and> alsaMidiHandler_decode e (d, b, l) = (True, d'', b', l')"
  then have r: "alsaMidiHandler_decode e (d, b, l) = (True, d'', b', l')" by simp
  have ts: "timeStamp (message_l l') = real (unat (ev_time e - lastTime_alsa b)) * 0.000001"
    using decode_ready(3) [OF r] h by simp
  show "timeStamp (message_l l')
        = (if lastTime_alsa b \<le> ev_time e
           then real (unat (ev_time e)) - real (unat (lastTime_alsa b))
           else 2 ^ 64 + real (unat (ev_time e)) - real (unat (lastTime_alsa b))) * 0.000001"
    unfolding ts unat_diff_64 by simp
  show "0 \<le> timeStamp (message_l l')"
    unfolding ts by (rule mult_nonneg_nonneg) (rule of_nat_0_le_iff, simp)
next
  assume "unat (tv_sec e) * 1000000 + unat (tv_nsec e) div 1000 < 2 ^ 32"
  then show "unat (ev_time e) = unat (tv_sec e) * 1000000 + unat (tv_nsec e) div 1000"
    by (simp add: ev_time_unat)
qed

theorem delta_is_wrapped_difference_witness:
  "midiInputCallback_assemble (MIM_DATA 0x403C90) True 3
       ((MidiInApi_new 0 4)\<lparr>firstMessage := False\<rparr>,
        \<lparr>lastTime = 5, message = \<lparr>bytes = [], timeStamp = 0\<rparr>\<rparr>)
     = ([], True, (MidiInApi_new 0 4)\<lparr>firstMessage := False\<rparr>,
        \<lparr>lastTime = 3,
         message = \<lparr>bytes = [0x90, 0x3C, 0x40], timeStamp = 4294967294 / 1000\<rparr>\<rparr>)
   \<and> alsaMidiHandler_decode
       \<lparr>ev_type = SND_SEQ_EVENT_OTHER, tv_sec = 2, tv_nsec = 6000000, ev_decoded = [0x90, 60, 100],
        ev_resize_fails = False\<rparr>
       ((MidiInApi_new 0 4)\<lparr>firstMessage := False\<rparr>, \<lparr>lastTime_alsa = 1001000\<rparr>,
        \<lparr>continueSysex_l = False, message_l = \<lparr>bytes = [], timeStamp = 0\<rparr>\<rparr>)
     = (True, (MidiInApi_new 0 4)\<lparr>firstMessage := False\<rparr>, \<lparr>lastTime_alsa = 2006000\<rparr>,
        \<lparr>continueSysex_l = False,
         message_l = \<lparr>bytes = [0x90, 60, 100], timeStamp = 1005 / 1000\<rparr>\<rparr>)
   \<and> (4294967294 / 1000 :: real) = (2 ^ 32 + 3 - 5) * 0.001
   \<and> (1005 / 1000 :: real) = (2006000 - 1001000) * 0.000001
   \<and> ev_time \<lparr>ev_type = SND_SEQ_EVENT_OTHER, tv_sec = 2, tv_nsec = 6000000,
        ev_decoded = [0x90, 60, 100], ev_resize_fails = False\<rparr> = 2006000"
proof -
  let ?d = "(MidiInApi_new 0 4)\<lparr>firstMessage := False\<rparr>"
  let ?a = "\<lparr>lastTime = 5, message = \<lparr>bytes = [], timeStamp = 0\<rparr>\<rparr>"
  let ?a' = "\<lparr>lastTime = 3,
         message = \<lparr>bytes = [0x90, 0x3C, 0x40], timeStamp = 4294967294 / 1000\<rparr>\<rparr>"
  let ?e = "\<lparr>ev_type = SND_SEQ_EVENT_OTHER, tv_sec = 2, tv_nsec = 6000000,
        ev_decoded = [0x90, 60, 100], ev_resize_fails = False\<rparr>"
  let ?b = "\<lparr>lastTime_alsa = 1001000\<rparr>"
  let ?b' = "\<lparr>lastTime_alsa = 2006000\<rparr>"
  let ?l = "\<lparr>continueSysex_l = False, message_l = \<lparr>bytes = [], timeStamp = 0\<rparr>\<rparr>"
  let ?l' = "\<lparr>continueSysex_l = False,
         message_l = \<lparr>bytes = [0x90, 60, 100], timeStamp = 1005 / 1000\<rparr>\<rparr>"
  have f: "\<not> firstMessage ?d" by simp
  have w: "midiInputCallback_assemble (MIM_DATA 0x403C90) True 3 (?d, ?a) = ([], True, ?d, ?a')"
    by (simp add: midiInputCallback_assemble_def calculate_time_stamp_def nBytes_of_def
        packed_bytes_def append_bytes_def MidiInApi_new_def Let_def upt_rec)
  have x: "alsaMidiHandler_decode ?e (?d, ?b, ?l) = (True, ?d, ?b', ?l')"
    by (simp add: alsaMidiHandler_decode_def doDecode_of_def ev_time_def MidiInApi_new_def Let_def)
  have n: "unat (tv_sec ?e) * 1000000 + unat (tv_nsec ?e) div 1000 < 2 ^ 32" by simp
  have v: "ev_time ?e = 2006000" by (simp add: ev_time_def)
  from delta_is_wrapped_difference [where d = ?d and ev = "MIM_DATA 0x403C90" and rq = True
      and ?t2.0 = 3 and a = ?a and es = "[]" and d' = ?d and a' = ?a'
      and e = ?e and b = ?b and l = ?l and d'' = ?d and b' = ?b' and l' = ?l'] f w x n v
  show ?thesis by simp
qed

text \<open>
  C8, as stated, fails in the ALSA handler: with timing messages ignored, a clock
  event at time 5000 leaves the baseline at 1000, and the next message at time 6000
  gets the delta 0.005, measured from 1000 and not from the filtered event.
\<close>

theorem baseline_alsa_filtered_counterexample:
  "alsaMidiHandler_decode
     \<lparr>ev_type = SND_SEQ_EVENT_CLOCK, tv_sec = 0, tv_nsec = 5000000, ev_decoded = [0xF8], ev_resize_fails = False\<rparr>
     ((MidiInApi_new 2 4)\<lparr>firstMessage := False\<rparr>, \<lparr>lastTime_alsa = 1000\<rparr>,
      \<lparr>continueSysex_l = False, message_l = \<lparr>bytes = [], timeStamp = 0\<rparr>\<rparr>)
   = (False, (MidiInApi_new 2 4)\<lparr>firstMessage := False\<rparr>, \<lparr>lastTime_alsa = 1000\<rparr>,
      \<lparr>continueSysex_l = False, message_l = \<lparr>bytes = [], timeStamp = 0\<rparr>\<rparr>)
   \<and> alsaMidiHandler_decode
     \<lparr>ev_type = SND_SEQ_EVENT_OTHER, tv_sec = 0, tv_nsec = 6000000, ev_decoded = [0x90, 60, 100],
      ev_resize_fails = False\<rparr>
     ((MidiInApi_new 2 4)\<lparr>firstMessage := False\<rparr>, \<lparr>lastTime_alsa = 1000\<rparr>,
      \<lparr>continueSysex_l = False, message_l = \<lparr>bytes = [], timeStamp = 0\<rparr>\<rparr>)
   = (True, (MidiInApi_new 2 4)\<lparr>firstMessage := False\<rparr>, \<lparr>lastTime_alsa = 6000\<rparr>,
      \<lparr>continueSysex_l = False,
       message_l = \<lparr>bytes = [0x90, 60, 100], timeStamp = 5 / 1000\<rparr>\<rparr>)
   \<and> (1000 :: 64 word) \<noteq> 5000
   \<and> (5 / 1000 :: real) \<noteq> (6000 - 5000) * 0.000001"
  by (simp add: alsaMidiHandler_decode_def doDecode_of_def ev_time_def MidiInApi_new_def Let_def)

text \<open>
  C8, amended. The Windows MM callback sets \<open>lastTime\<close> to the native time of every
  data, long-data or long-error callback and clears \<open>firstMessage\<close>, before any
  filtering and whether or not a message is handed to the sink. The ALSA handler
  tests the ignore flags before it decodes and stamps: an event that hands a message
  to the sink sets \<open>lastTime\<close> to its time, an event that hands none (dropped by the
  ignore flags among others) leaves \<open>lastTime\<close> and \<open>firstMessage\<close> as they were.
\<close>

theorem baseline_update:
  "(ev \<noteq> MIM_OTHER \<and> midiInputCallback_assemble ev rq t (d, a) = (es, ready, d', a')
      \<longrightarrow> lastTime a' = t \<and> \<not> firstMessage d')
   \<and> (alsaMidiHandler_decode e (d, b, l) = (True, d'', b', l')
      \<longrightarrow> lastTime_alsa b' = ev_time e \<and> \<not> firstMessage d'')
   \<and> (alsaMidiHandler_decode e (d, b, l) = (False, d'', b', l')
      \<longrightarrow> b' = b \<and> firstMessage d'' = firstMessage d)"
proof (intro conjI impI)
  assume h: "ev \<noteq> MIM_OTHER \<and> midiInputCallback_assemble ev rq t (d, a) = (es, ready, d', a')"
  then have r: "midiInputCallback_assemble ev rq t (d, a) = (es, ready, d', a')"
    and o: "ev \<noteq> MIM_OTHER" by simp_all
  show "lastTime a' = t" by (rule assemble_stamp(1) [OF r o])
  show "\<not> firstMessage d'" by (rule assemble_stamp(2) [OF r o])
next
  assume r: "alsaMidiHandler_decode e (d, b, l) = (True, d'', b', l')"
  show "lastTime_alsa b' = ev_time e" by (rule decode_ready(1) [OF r])
  show "\<not> firstMessage d''" by (rule decode_ready(2) [OF r])
next
  assume r: "alsaMidiHandler_decode e (d, b, l) = (False, d'', b', l')"
  show "b' = b" by (rule decode_not_ready(1) [OF r])
  show "firstMessage d'' = firstMessage d" by (rule decode_not_ready(2) [OF r])
qed

theorem baseline_update_witness:
  "midiInputCallback_assemble (MIM_DATA 0xFE) True 5000
     ((MidiInApi_new 4 4)\<lparr>firstMessage := False\<rparr>,
      \<lparr>lastTime = 1000, message = \<lparr>bytes = [], timeStamp = 0\<rparr>\<rparr>)
   = ([], False, (MidiInApi_new 4 4)\<lparr>firstMessage := False\<rparr>,
      \<lparr>lastTime = 5000, message = \<lparr>bytes = [], timeStamp = 4\<rparr>\<rparr>)
   \<and> alsaMidiHandler_decode
     \<lparr>ev_type = SND_SEQ_EVENT_OTHER, tv_sec = 0, tv_nsec = 6000000, ev_decoded = [0x90, 60, 100],
      ev_resize_fails = False\<rparr>
     ((MidiInApi_new 4 4)\<lparr>firstMessage := False\<rparr>, \<lparr>lastTime_alsa = 1000\<rparr>,
      \<lparr>continueSysex_l = False, message_l = \<lparr>bytes = [], timeStamp = 0\<rparr>\<rparr>)
   = (True, (MidiInApi_new 4 4)\<lparr>firstMessage := False\<rparr>, \<lparr>lastTime_alsa = 6000\<rparr>,
      \<lparr>continueSysex_l = False,
       message_l = \<lparr>bytes = [0x90, 60, 100], timeStamp = 5 / 1000\<rparr>\<rparr>)
   \<and> alsaMidiHandler_decode
     \<lparr>ev_type = SND_SEQ_EVENT_SENSING, tv_sec = 0, tv_nsec = 5000000, ev_decoded = [0xFE], ev_resize_fails = False\<rparr>
     ((MidiInApi_new 4 4)\<lparr>firstMessage := False\<rparr>, \<lparr>lastTime_alsa = 1000\<rparr>,
      \<lparr>continueSysex_l = False, message_l = \<lparr>bytes = [], timeStamp = 0\<rparr>\<rparr>)
   = (False, (MidiInApi_new 4 4)\<lparr>firstMessage := False\<rparr>, \<lparr>lastTime_alsa = 1000\<rparr>,
      \<lparr>continueSysex_l = False, message_l = \<lparr>bytes = [], timeStamp = 0\<rparr>\<rparr>)"
proof -
  let ?d = "(MidiInApi_new 4 4)\<lparr>firstMessage := False\<rparr>"
  let ?a = "\<lparr>lastTime = 1000, message = \<lparr>bytes = [], timeStamp = 0\<rparr>\<rparr>"
  let ?a' = "\<lparr>lastTime = 5000, message = \<lparr>bytes = [], timeStamp = 4\<rparr>\<rparr>"
  let ?e1 = "\<lparr>ev_type = SND_SEQ_EVENT_OTHER, tv_sec = 0, tv_nsec = 6000000, ev_decoded = [0x90, 60, 100],
      ev_resize_fails = False\<rparr>"
  let ?e2 = "\<lparr>ev_type = SND_SEQ_EVENT_SENSING, tv_sec = 0, tv_nsec = 5000000, ev_decoded = [0xFE],
      ev_resize_fails = False\<rparr>"
  let ?b = "\<lparr>lastTime_alsa = 1000\<rparr>"
  let ?b' = "\<lparr>lastTime_alsa = 6000\<rparr>"
  let ?l = "\<lparr>continueSysex_l = False, message_l = \<lparr>bytes = [], timeStamp = 0\<rparr>\<rparr>"
  let ?l' = "\<lparr>continueSysex_l = False,
       message_l = \<lparr>bytes = [0x90, 60, 100], timeStamp = 5 / 1000\<rparr>\<rparr>"
  have o: "MIM_DATA 0xFE \<noteq> MIM_OTHER" by simp
  have w: "midiInputCallback_assemble (MIM_DATA 0xFE) True 5000 (?d, ?a) = ([], False, ?d, ?a')"
    by (simp add: midiInputCallback_assemble_def calculate_time_stamp_def nBytes_of_def
        packed_bytes_def append_bytes_def MidiInApi_new_def Let_def)
  have x: "alsaMidiHandler_decode ?e1 (?d, ?b, ?l) = (True, ?d, ?b', ?l')"
    by (simp add: alsaMidiHandler_decode_def doDecode_of_def ev_time_def MidiInApi_new_def Let_def)
  have y: "alsaMidiHandler_decode ?e2 (?d, ?b, ?l) = (False, ?d, ?b, ?l)"
    by (simp add: alsaMidiHandler_decode_def doDecode_of_def ev_time_def MidiInApi_new_def Let_def)
  from baseline_update [where ev = "MIM_DATA 0xFE" and rq = True and t = 5000 and d = ?d
      and a = ?a and es = "[]" and ready = False and d' = ?d and a' = ?a'
      and e = ?e1 and b = ?b and l = ?l and d'' = ?d and b' = ?b' and l' = ?l']
    baseline_update [where ev = "MIM_DATA 0xFE" and rq = True and t = 5000 and d = ?d
      and a = ?a and es = "[]" and ready = False and d' = ?d and a' = ?a'
      and e = ?e2 and b = ?b and l = ?l and d'' = ?d and b' = ?b and l' = ?l]
    o w x y
  show ?thesis by simp
qed

text \<open>
  C9, as stated, fails: a short message whose first byte is 0x3C, fed to fresh input
  data at native time 7, yields no message and no diagnostic, but \<open>firstMessage\<close> goes
  from true to false and \<open>lastTime\<close> from 0 to 7.
\<close>

theorem non_status_fragment_counterexample:
  "(ucast ((0x00403C :: 32 word) AND 0x000000FF) :: byte) AND 0x80 = 0
   \<and> midiInputCallback (MIM_DATA 0x00403C) True 7
       (MidiInApi_new 0 4, \<lparr>lastTime = 0, message = \<lparr>bytes = [], timeStamp = 0\<rparr>\<rparr>)
     = ([], (MidiInApi_new 0 4)\<lparr>firstMessage := False\<rparr>,
        \<lparr>lastTime = 7, message = \<lparr>bytes = [], timeStamp = 0\<rparr>\<rparr>)
   \<and> firstMessage (MidiInApi_new 0 4)
   \<and> \<not> firstMessage ((MidiInApi_new 0 4)\<lparr>firstMessage := False\<rparr>)
   \<and> (0 :: 32 word) \<noteq> 7"
  by (simp add: midiInputCallback_def midiInputCallback_assemble_def calculate_time_stamp_def
      MidiInApi_new_def Let_def)

text \<open>
  C9, amended. A short message whose first byte has the high bit unset yields no
  message and no diagnostic, and leaves the queue, the ignore flags and the
  accumulated bytes unchanged; the callback has stamped it before the status check,
  though: \<open>firstMessage\<close> is cleared, \<open>lastTime\<close> is the fragment's native time and
  the time stamp of \<open>apiData->message\<close> is overwritten.
\<close>

theorem non_status_fragment_stamped:
  assumes "(ucast (midiMessage AND 0x000000FF) :: byte) AND 0x80 = 0"
  shows "midiInputCallback (MIM_DATA midiMessage) rq t (d, a)
         = ([], d\<lparr>firstMessage := False\<rparr>,
            a\<lparr>message := (message a)\<lparr>timeStamp :=
                  (if firstMessage d then 0 else real (unat (t - lastTime a)) * 0.001)\<rparr>,
              lastTime := t\<rparr>)"
  using assms
  by (simp add: midiInputCallback_def midiInputCallback_assemble_def calculate_time_stamp_def
      Let_def)

theorem non_status_fragment_stamped_witness:
  "midiInputCallback (MIM_DATA 0x00403C) True 7
       (MidiInApi_new 0 4, \<lparr>lastTime = 0, message = \<lparr>bytes = [], timeStamp = 0\<rparr>\<rparr>)
     = ([], (MidiInApi_new 0 4)\<lparr>firstMessage := False\<rparr>,
        \<lparr>lastTime = 7, message = \<lparr>bytes = [], timeStamp = 0\<rparr>\<rparr>)"
proof -
  have h: "(ucast ((0x00403C :: 32 word) AND 0x000000FF) :: byte) AND 0x80 = 0" by simp
  from non_status_fragment_stamped [OF h, of True 7 "MidiInApi_new 0 4"
      "\<lparr>lastTime = 0, message = \<lparr>bytes = [], timeStamp = 0\<rparr>\<rparr>"]
  show ?thesis by (simp add: MidiInApi_new_def)
qed

section \<open>Properties of the error report\<close>

lemma error_suppressed:
  assumes "errorCallback api \<noteq> 0" and "firstErrorOccurred api"
  shows "error api c = (None, [], api)"
  using assms by (cases c) simp

lemma error_nested_suppressed:
  assumes "errorCallback api \<noteq> 0" and "firstErrorOccurred api"
  shows "error_nested api cs = (None, [], api)"
  using assms by (induction cs) (simp_all add: error_suppressed)

text \<open>
  C10. With an error callback registered, \<open>error\<close> invokes it once with the type and
  the string and returns normally, the object unchanged afterwards; every call of
  \<open>error\<close> made while the callback runs returns at once without invoking it. With no
  callback registered, \<open>WARNING\<close> and \<open>DEBUG_WARNING\<close> return normally and every
  other type throws \<open>RtMidiError\<close> with the string and the type.
\<close>

theorem error_dispatch:
  "(errorCallback api \<noteq> 0 \<and> \<not> firstErrorOccurred api \<longrightarrow>
      error api (Call type errorString nested)
      = (None, [ErrorCallbackCall (errorCallback api) type errorString], api))
   \<and> (errorCallback api \<noteq> 0 \<and> firstErrorOccurred api \<longrightarrow>
      error api (Call type errorString nested) = (None, [], api))
   \<and> (errorCallback api = 0 \<and> (type = WARNING \<or> type = DEBUG_WARNING) \<longrightarrow>
      fst (error api (Call type errorString nested)) = None
      \<and> snd (snd (error api (Call type errorString nested))) = api)
   \<and> (errorCallback api = 0 \<and> type \<noteq> WARNING \<and> type \<noteq> DEBUG_WARNING \<longrightarrow>
      fst (error api (Call type errorString nested)) = Some (RtMidiError errorString type))"
proof (intro conjI impI)
  assume h: "errorCallback api \<noteq> 0 \<and> \<not> firstErrorOccurred api"
  have "error_nested (api\<lparr>firstErrorOccurred := True\<rparr>) nested
        = (None, [], api\<lparr>firstErrorOccurred := True\<rparr>)"
    using h by (intro error_nested_suppressed) simp_all
  then show "error api (Call type errorString nested)
      = (None, [ErrorCallbackCall (errorCallback api) type errorString], api)"
    using h by simp
next
  assume "errorCallback api \<noteq> 0 \<and> firstErrorOccurred api"
  then show "error api (Call type errorString nested) = (None, [], api)"
    by (simp add: error_suppressed)
next
  assume h: "errorCallback api = 0 \<and> (type = WARNING \<or> type = DEBUG_WARNING)"
  then show "fst (error api (Call type errorString nested)) = None" by auto
  from h show "snd (snd (error api (Call type errorString nested))) = api" by auto
next
  assume "errorCallback api = 0 \<and> type \<noteq> WARNING \<and> type \<noteq> DEBUG_WARNING"
  then show "fst (error api (Call type errorString nested)) = Some (RtMidiError errorString type)"
    by simp
qed

theorem error_dispatch_witness:
  "error \<lparr>errorCallback = 1, firstErrorOccurred = False\<rparr>
     (Call DRIVER_ERROR ''outer'' [Call INVALID_USE ''inner'' []])
   = (None, [ErrorCallbackCall 1 DRIVER_ERROR ''outer''],
      \<lparr>errorCallback = 1, firstErrorOccurred = False\<rparr>)
   \<and> error \<lparr>errorCallback = 1, firstErrorOccurred = True\<rparr> (Call INVALID_USE ''inner'' [])
   = (None, [], \<lparr>errorCallback = 1, firstErrorOccurred = True\<rparr>)
   \<and> fst (error \<lparr>errorCallback = 0, firstErrorOccurred = False\<rparr> (Call WARNING ''w'' [])) = None
   \<and> fst (error \<lparr>errorCallback = 0, firstErrorOccurred = False\<rparr> (Call DRIVER_ERROR ''e'' []))
     = Some (RtMidiError ''e'' DRIVER_ERROR)"
  using error_dispatch [of "\<lparr>errorCallback = 1, firstErrorOccurred = False\<rparr>" DRIVER_ERROR
      "''outer''" "[Call INVALID_USE ''inner'' []]"]
    error_dispatch [of "\<lparr>errorCallback = 1, firstErrorOccurred = True\<rparr>" INVALID_USE
      "''inner''" "[]"]
    error_dispatch [of "\<lparr>errorCallback = 0, firstErrorOccurred = False\<rparr>" WARNING "''w''" "[]"]
    error_dispatch [of "\<lparr>errorCallback = 0, firstErrorOccurred = False\<rparr>" DRIVER_ERROR
      "''e''" "[]"]
  by simp

end
